theory Spec2Isabelle
  imports Main
begin

section \<open>Python values, exceptions and the object store\<close>

text \<open>
  The elements that flow through a pipeline are Python objects. The model keeps the
  JSON-like fragment of them: what \<^verbatim>\<open>json.loads\<close> returns and what the examples of the
  specification use. A float is a dyadic number, an infinity or a NaN.
\<close>

datatype pyfloat = Float int int | Infinity bool | NaN

datatype pyval =
    PNone
  | PBool bool
  | PInt int
  | PFloat pyfloat
  | PStr string
  | PList "pyval list"
  | PDict "(string \<times> pyval) list"

text \<open>
  The in-band sentinel \<^verbatim>\<open>_termination_obj\<close> is compared by identity and is never the
  result of a user function, so an element is either the sentinel or a value.
\<close>

datatype elem = Termination_obj | Element pyval

text \<open>
  Exceptions. The four \<^verbatim>\<open>Exception(...)\<close> objects that \<^verbatim>\<open>flow.py\<close> raises itself are
  kept apart by constructor, with the values that their messages format.
\<close>

datatype exn =
    IndexError
  | AttributeError
  | TypeError
  | ValueError
  | KeyError string
  | JSONDecodeError
  | NotImplementedError
  | InvalidStateError
  | NonTerminalReduce
  | UnsupportedType string
  | GetItemStatus int string
  | WorkerAlreadyTerminated
  | FlowException "exn option"
  | UserError string

text \<open>\<^verbatim>\<open>bool(x)\<close>, as \<^verbatim>\<open>if x:\<close> evaluates it.\<close>

fun truthy :: "pyval \<Rightarrow> bool" where
  "truthy PNone = False"
| "truthy (PBool b) = b"
| "truthy (PInt i) = (i \<noteq> 0)"
| "truthy (PFloat (Float m e)) = (m \<noteq> 0)"
| "truthy (PFloat (Infinity b)) = True"
| "truthy (PFloat NaN) = True"
| "truthy (PStr s) = (s \<noteq> [])"
| "truthy (PList xs) = (xs \<noteq> [])"
| "truthy (PDict kvs) = (kvs \<noteq> [])"

text \<open>The items that \<^verbatim>\<open>for x in v\<close> visits; a value that is not iterable raises.\<close>

fun py_iter :: "pyval \<Rightarrow> exn + pyval list" where
  "py_iter (PList xs) = Inr xs"
| "py_iter (PStr s) = Inr (map (\<lambda>c. PStr [c]) s)"
| "py_iter (PDict kvs) = Inr (map (\<lambda>kv. PStr (fst kv)) kvs)"
| "py_iter v = Inl TypeError"

text \<open>
  An entry of a nested pipeline definition is a node object (a reference into the store)
  or a Python list of entries. \<^verbatim>\<open>Flow.to\<close> appends whatever object it is given, so an
  outlet is an entry as well.
\<close>

type_synonym ref = nat

datatype step = Node ref | Steps "step list"

datatype session = SessionOpen | SessionClosed

text \<open>A future or task: pending, or done with a result or an exception.\<close>

datatype future = Pending | Done "exn + pyval"

record response =
  status :: int
  text_body :: "exn + string"

text \<open>
  An entry of the Join node's pending queue: the sentinel, or the pair of the element
  and the in-flight request, which is modelled by what awaiting it gives.
\<close>

datatype job = JobTermination | Job pyval "exn + response"

text \<open>
  A user function is modelled by what calling it (and awaiting it, when it is a
  coroutine function) gives: a value or an exception. That covers
  \<^verbatim>\<open>UnaryFunctionFlow._call\<close> and the \<^verbatim>\<open>_is_async\<close> flag.
\<close>

type_synonym unary_fn = "pyval \<Rightarrow> exn + pyval"
type_synonym binary_fn = "pyval \<Rightarrow> pyval \<Rightarrow> exn + pyval"

record source =
  buffer_size :: nat
  source_q :: "elem list"
  termination_q :: "exn option list"
  source_ex :: "exn option"
  termination_future :: "future option"

record join =
  key_extractor :: unary_fn
  join_function :: binary_fn
  client_session :: "session option"
  join_q :: "job list option"
  worker_awaitable :: "future option"

text \<open>The classes of \<^verbatim>\<open>flow.py\<close>, each with the fields its constructor adds.\<close>

datatype payload =
    Flow
  | Source source
  | Map unary_fn
  | Filter unary_fn
  | FlatMap unary_fn
  | Reduce binary_fn pyval
  | JoinWithTable join

record node =
  outlets :: "step list"
  termination_result_fn :: binary_fn
  obj :: payload

record state =
  heap :: "ref \<Rightarrow> node"
  stdout :: "string list"

section \<open>Computations\<close>

text \<open>
  A method takes the state and gives a result or an exception together with the state
  it leaves, or \<open>None\<close> when the call does not return (it blocks for ever or recurses
  without end).
\<close>

type_synonym 'a prog = "state \<Rightarrow> ((exn + 'a) \<times> state) option"

definition ret :: "'a \<Rightarrow> 'a prog" where
  "ret x = (\<lambda>s. Some (Inr x, s))"

definition raise :: "exn \<Rightarrow> 'a prog" where
  "raise e = (\<lambda>s. Some (Inl e, s))"

definition bnd :: "'a prog \<Rightarrow> ('a \<Rightarrow> 'b prog) \<Rightarrow> 'b prog" where
  "bnd m f = (\<lambda>s. case m s of
                     None \<Rightarrow> None
                   | Some (Inl e, s') \<Rightarrow> Some (Inl e, s')
                   | Some (Inr x, s') \<Rightarrow> f x s')"

definition lift :: "exn + 'a \<Rightarrow> 'a prog" where
  "lift r = (case r of Inl e \<Rightarrow> raise e | Inr x \<Rightarrow> ret x)"

definition update_node :: "ref \<Rightarrow> (node \<Rightarrow> node) \<Rightarrow> state \<Rightarrow> state" where
  "update_node r f s = s\<lparr>heap := (heap s)(r := f (heap s r))\<rparr>"

definition print :: "string \<Rightarrow> unit prog" where
  "print line = (\<lambda>s. Some (Inr (), s\<lparr>stdout := stdout s @ [line]\<rparr>))"

section \<open>The pipeline builder\<close>

text \<open>\<^verbatim>\<open>Flow.to\<close> appends the outlet and returns it; \<^verbatim>\<open>Reduce.to\<close> raises.\<close>

definition Flow_to :: "ref \<Rightarrow> step \<Rightarrow> step prog" where
  "Flow_to self outlet =
     (\<lambda>s. Some (Inr outlet,
                 update_node self (\<lambda>n. n\<lparr>outlets := outlets n @ [outlet]\<rparr>) s))"

definition Reduce_to :: "ref \<Rightarrow> step \<Rightarrow> step prog" where
  "Reduce_to self outlet = raise NonTerminalReduce"

text \<open>
  \<^verbatim>\<open>cur_step.to(...)\<close>: a Python list has no attribute \<^verbatim>\<open>to\<close>; the lookup fails
  before the argument is evaluated. On a node the class decides the method.
\<close>

definition lookup_to :: "step \<Rightarrow> (step \<Rightarrow> step prog) prog" where
  "lookup_to cur_step =
     (case cur_step of
        Steps l \<Rightarrow> raise AttributeError
      | Node self \<Rightarrow>
          (\<lambda>s. (case obj (heap s self) of
                   Reduce f r \<Rightarrow> ret (Reduce_to self)
                 | _ \<Rightarrow> ret (Flow_to self)) s))"

fun build_flow :: "step list \<Rightarrow> step prog"
  and build_flow_loop :: "step \<Rightarrow> step list \<Rightarrow> unit prog" where
  "build_flow steps =
     bnd (if length steps = 0 then print ''Cannot build an empty flow'' else ret ())
       (\<lambda>u. case steps of
               [] \<Rightarrow> raise IndexError
             | first # rest \<Rightarrow> bnd (build_flow_loop first rest) (\<lambda>u. ret first))"
| "build_flow_loop cur_step [] = ret ()"
| "build_flow_loop cur_step (Steps next_step # rest) =
     bnd (lookup_to cur_step) (\<lambda>to.
     bnd (build_flow next_step) (\<lambda>sub.
     bnd (to sub) (\<lambda>u.
     build_flow_loop cur_step rest)))"
| "build_flow_loop cur_step (Node n # rest) =
     bnd (lookup_to cur_step) (\<lambda>to.
     bnd (to (Node n)) (\<lambda>u.
     build_flow_loop (Node n) rest))"

section \<open>What the module imports\<close>

text \<open>
  \<^verbatim>\<open>flow.py\<close> calls into libraries that are not part of it. They are parameters of
  the model:
  \<^item> \<open>run_tasks\<close>: the event loop running the tasks that \<^verbatim>\<open>_do_downstream\<close> creates
    for an ordinary element and then awaits one after the other;
  \<^item> \<open>json_loads\<close>: \<^verbatim>\<open>json.loads\<close>, \<open>None\<close> where it raises;
  \<^item> \<open>float_of_str\<close>: the builtin \<^verbatim>\<open>float\<close> on a string, \<open>None\<close> where it raises;
  \<^item> \<open>session_put\<close>: what awaiting the request for a key gives.
\<close>

record lib =
  run_tasks :: "pyval prog list \<Rightarrow> unit prog"
  json_loads :: "string \<Rightarrow> pyval option"
  float_of_str :: "string \<Rightarrow> pyfloat option"
  session_put :: "pyval \<Rightarrow> exn + response"

text \<open>
  What another thread or task does while a call is blocked or suspended is an
  interference: a change of the state, or \<open>None\<close> when it never hands control back.
\<close>

type_synonym interference = "state \<Rightarrow> state option"

definition interfere :: "interference \<Rightarrow> unit prog" where
  "interfere w = (\<lambda>s. case w s of None \<Rightarrow> None | Some s' \<Rightarrow> Some (Inr (), s'))"

text \<open>\<open>outlet.do(element)\<close> on the nodes of the store: the dynamic dispatch.\<close>

type_synonym dispatch = "ref \<Rightarrow> elem \<Rightarrow> pyval prog"

section \<open>The fan-out and termination protocol\<close>

text \<open>\<^verbatim>\<open>self._outlets[i]\<close> and \<^verbatim>\<open>outlet.do(element)\<close>; a Python list has no \<^verbatim>\<open>do\<close>.\<close>

definition get_outlet :: "ref \<Rightarrow> nat \<Rightarrow> step prog" where
  "get_outlet self i =
     (\<lambda>s. if i < length (outlets (heap s self))
          then Some (Inr (outlets (heap s self) ! i), s)
          else Some (Inl IndexError, s))"

definition call_do :: "dispatch \<Rightarrow> step \<Rightarrow> elem \<Rightarrow> pyval prog" where
  "call_do d outlet element =
     (case outlet of Steps l \<Rightarrow> raise AttributeError | Node r \<Rightarrow> d r element)"

definition get_termination_result_fn :: "ref \<Rightarrow> binary_fn prog" where
  "get_termination_result_fn self = (\<lambda>s. Some (Inr (termination_result_fn (heap s self)), s))"

text \<open>
  \<^verbatim>\<open>for i in range(1, len(self._outlets))\<close> of the termination branch, with \<open>k\<close> the
  number of indices still to visit.
\<close>

fun termination_loop :: "dispatch \<Rightarrow> ref \<Rightarrow> nat \<Rightarrow> nat \<Rightarrow> pyval \<Rightarrow> pyval prog" where
  "termination_loop d self i 0 termination_result = ret termination_result"
| "termination_loop d self i (Suc k) termination_result =
     bnd (get_termination_result_fn self) (\<lambda>fn.
     bnd (get_outlet self i) (\<lambda>outlet.
     bnd (call_do d outlet Termination_obj) (\<lambda>r.
     bnd (lift (fn termination_result r)) (\<lambda>termination_result'.
     termination_loop d self (Suc i) k termination_result'))))"

text \<open>
  The first loop of the other branch: one task per outlet. The lookup of \<^verbatim>\<open>do\<close> on
  an outlet that is a Python list raises at once; the tasks created before it are left
  to the event loop and are not run here.
\<close>

fun create_tasks :: "dispatch \<Rightarrow> step list \<Rightarrow> elem \<Rightarrow> pyval prog list prog" where
  "create_tasks d [] element = ret []"
| "create_tasks d (Steps l # rest) element = raise AttributeError"
| "create_tasks d (Node r # rest) element =
     bnd (create_tasks d rest element) (\<lambda>tasks. ret (d r element # tasks))"

definition Flow_do_downstream :: "lib \<Rightarrow> dispatch \<Rightarrow> ref \<Rightarrow> elem \<Rightarrow> pyval prog" where
  "Flow_do_downstream L d self element =
     (case element of
        Termination_obj \<Rightarrow>
          bnd (get_outlet self 0) (\<lambda>outlet.
          bnd (call_do d outlet Termination_obj) (\<lambda>termination_result.
          (\<lambda>s. termination_loop d self 1 (length (outlets (heap s self)) - 1)
                 termination_result s)))
      | Element x \<Rightarrow>
          bnd (\<lambda>s. create_tasks d (outlets (heap s self)) element s) (\<lambda>tasks.
          bnd (run_tasks L tasks) (\<lambda>u. ret PNone)))"

text \<open>
  One way the event loop can run the tasks: each runs to completion when it is first
  scheduled, in the order of creation; the awaits that follow raise the first failure
  in that order. This is what happens when every node has at most one outlet.
\<close>

fun run_each :: "pyval prog list \<Rightarrow> state \<Rightarrow> ((exn + pyval) list \<times> state) option" where
  "run_each [] s = Some ([], s)"
| "run_each (t # ts) s =
     (case t s of
        None \<Rightarrow> None
      | Some (r, s') \<Rightarrow>
          (case run_each ts s' of
             None \<Rightarrow> None
           | Some (rs, s'') \<Rightarrow> Some (r # rs, s'')))"

fun await_each :: "(exn + pyval) list \<Rightarrow> exn + unit" where
  "await_each [] = Inr ()"
| "await_each (Inl e # rs) = Inl e"
| "await_each (Inr v # rs) = await_each rs"

definition run_in_order :: "pyval prog list \<Rightarrow> unit prog" where
  "run_in_order tasks =
     (\<lambda>s. case run_each tasks s of
            None \<Rightarrow> None
          | Some (rs, s') \<Rightarrow> Some (await_each rs, s'))"

section \<open>Transform nodes\<close>

definition Flow_do :: "ref \<Rightarrow> elem \<Rightarrow> pyval prog" where
  "Flow_do self element = raise NotImplementedError"

definition Map_do_internal :: "lib \<Rightarrow> dispatch \<Rightarrow> ref \<Rightarrow> pyval \<Rightarrow> pyval \<Rightarrow> pyval prog" where
  "Map_do_internal L d self element mapped_elem =
     bnd (Flow_do_downstream L d self (Element mapped_elem)) (\<lambda>u. ret PNone)"

definition Filter_do_internal :: "lib \<Rightarrow> dispatch \<Rightarrow> ref \<Rightarrow> pyval \<Rightarrow> pyval \<Rightarrow> pyval prog" where
  "Filter_do_internal L d self element keep =
     (if truthy keep
      then bnd (Flow_do_downstream L d self (Element element)) (\<lambda>u. ret PNone)
      else ret PNone)"

fun FlatMap_loop :: "lib \<Rightarrow> dispatch \<Rightarrow> ref \<Rightarrow> pyval list \<Rightarrow> pyval prog" where
  "FlatMap_loop L d self [] = ret PNone"
| "FlatMap_loop L d self (result_element # rest) =
     bnd (Flow_do_downstream L d self (Element result_element)) (\<lambda>u.
     FlatMap_loop L d self rest)"

definition FlatMap_do_internal :: "lib \<Rightarrow> dispatch \<Rightarrow> ref \<Rightarrow> pyval \<Rightarrow> pyval \<Rightarrow> pyval prog" where
  "FlatMap_do_internal L d self element result_elements =
     bnd (lift (py_iter result_elements)) (\<lambda>items. FlatMap_loop L d self items)"

text \<open>
  \<^verbatim>\<open>UnaryFunctionFlow.do\<close>, with the subclass's \<^verbatim>\<open>_do_internal\<close> and the function
  \<^verbatim>\<open>self._fn\<close> it wraps.
\<close>

definition UnaryFunctionFlow_do ::
  "(lib \<Rightarrow> dispatch \<Rightarrow> ref \<Rightarrow> pyval \<Rightarrow> pyval \<Rightarrow> pyval prog) \<Rightarrow>
     lib \<Rightarrow> dispatch \<Rightarrow> ref \<Rightarrow> unary_fn \<Rightarrow> elem \<Rightarrow> pyval prog" where
  "UnaryFunctionFlow_do do_internal L d self fn element =
     (case element of
        Termination_obj \<Rightarrow> Flow_do_downstream L d self element
      | Element x \<Rightarrow>
          bnd (lift (fn x)) (\<lambda>fn_result.
          bnd (do_internal L d self x fn_result) (\<lambda>u. ret PNone)))"

section \<open>Reduce\<close>

definition Reduce_do :: "ref \<Rightarrow> elem \<Rightarrow> pyval prog" where
  "Reduce_do self element =
     (\<lambda>s. case obj (heap s self) of
            Reduce fn result \<Rightarrow>
              (case element of
                 Termination_obj \<Rightarrow> Some (Inr result, s)
               | Element x \<Rightarrow>
                   (case fn result x of
                      Inl e \<Rightarrow> Some (Inl e, s)
                    | Inr res \<Rightarrow>
                        Some (Inr PNone, update_node self (\<lambda>n. n\<lparr>obj := Reduce fn res\<rparr>) s)))
          | _ \<Rightarrow> Some (Inl AttributeError, s))"

section \<open>The Join node\<close>

definition get_join :: "ref \<Rightarrow> join prog" where
  "get_join self =
     (\<lambda>s. case obj (heap s self) of
            JoinWithTable j \<Rightarrow> Some (Inr j, s)
          | _ \<Rightarrow> Some (Inl AttributeError, s))"

definition update_join :: "ref \<Rightarrow> (join \<Rightarrow> join) \<Rightarrow> unit prog" where
  "update_join self f =
     (\<lambda>s. Some (Inr (),
                 update_node self
                   (\<lambda>n. case obj n of
                          JoinWithTable j \<Rightarrow> n\<lparr>obj := JoinWithTable (f j)\<rparr>
                        | _ \<Rightarrow> n) s))"

text \<open>\<^verbatim>\<open>_non_int_char_pattern.search(value)\<close> for the pattern \<^verbatim>\<open>[^-0-9]\<close>.\<close>

definition is_digit :: "char \<Rightarrow> bool" where
  "is_digit c = (c \<in> set ''0123456789'')"

definition non_int_char_pattern_search :: "string \<Rightarrow> bool" where
  "non_int_char_pattern_search value = list_ex (\<lambda>c. c \<noteq> CHR ''-'' \<and> \<not> is_digit c) value"

text \<open>
  The builtin \<^verbatim>\<open>int\<close> on a string. The code applies it only to a text over the
  alphabet \<^verbatim>\<open>-0123456789\<close>, where it accepts an optional minus sign followed by one or
  more digits and raises \<^verbatim>\<open>ValueError\<close> on everything else.
\<close>

definition digits_value :: "string \<Rightarrow> int" where
  "digits_value ds = foldl (\<lambda>acc c. 10 * acc + (int (of_char c) - 48)) 0 ds"

definition py_int :: "string \<Rightarrow> exn + int" where
  "py_int value =
     (case value of
        [] \<Rightarrow> Inl ValueError
      | c # ds \<Rightarrow>
          if c = CHR ''-''
          then (if ds \<noteq> [] \<and> list_all is_digit ds then Inr (- digits_value ds)
                else Inl ValueError)
          else (if list_all is_digit value then Inr (digits_value value)
                else Inl ValueError))"

text \<open>\<^verbatim>\<open>response_object[name] = val\<close> on a dict held as an association list.\<close>

fun dict_set :: "string \<Rightarrow> pyval \<Rightarrow> (string \<times> pyval) list \<Rightarrow> (string \<times> pyval) list" where
  "dict_set name val [] = [(name, val)]"
| "dict_set name val ((k, v) # kvs) =
     (if k = name then (k, val) # kvs else (k, v) # dict_set name val kvs)"

text \<open>The inner loop \<^verbatim>\<open>for typ, value in type_to_value.items()\<close>.\<close>

fun parse_type_to_value :: "lib \<Rightarrow> (string \<times> pyval) list \<Rightarrow> pyval \<Rightarrow> exn + pyval" where
  "parse_type_to_value L [] val = Inr val"
| "parse_type_to_value L ((typ, value) # rest) val =
     (if typ = ''S'' \<or> typ = ''BOOL'' then parse_type_to_value L rest value
      else if typ = ''N'' then
        (case value of
           PStr v \<Rightarrow>
             if non_int_char_pattern_search v
             then (case float_of_str L v of
                     None \<Rightarrow> Inl ValueError
                   | Some f \<Rightarrow> parse_type_to_value L rest (PFloat f))
             else (case py_int v of
                     Inl e \<Rightarrow> Inl e
                   | Inr i \<Rightarrow> parse_type_to_value L rest (PInt i))
         | _ \<Rightarrow> Inl TypeError)
      else Inl (UnsupportedType typ))"

text \<open>The outer loop \<^verbatim>\<open>for name, type_to_value in response_object.items()\<close>.\<close>

fun parse_items ::
  "lib \<Rightarrow> (string \<times> pyval) list \<Rightarrow> (string \<times> pyval) list \<Rightarrow> exn + (string \<times> pyval) list" where
  "parse_items L [] response_object = Inr response_object"
| "parse_items L ((name, type_to_value) # rest) response_object =
     (case type_to_value of
        PDict tags \<Rightarrow>
          (case parse_type_to_value L tags PNone of
             Inl e \<Rightarrow> Inl e
           | Inr val \<Rightarrow> parse_items L rest (dict_set name val response_object))
      | _ \<Rightarrow> Inl AttributeError)"

definition JoinWithTable_parse_response :: "lib \<Rightarrow> string \<Rightarrow> exn + pyval" where
  "JoinWithTable_parse_response L response_body =
     (case json_loads L response_body of
        None \<Rightarrow> Inl JSONDecodeError
      | Some (PDict kvs) \<Rightarrow>
          (case map_of kvs ''Item'' of
             None \<Rightarrow> Inl (KeyError ''Item'')
           | Some (PDict items) \<Rightarrow>
               (case parse_items L items items of
                  Inl e \<Rightarrow> Inl e
                | Inr response_object \<Rightarrow> Inr (PDict response_object))
           | Some _ \<Rightarrow> Inl AttributeError)
      | Some _ \<Rightarrow> Inl TypeError)"

text \<open>
  The body of the worker's loop for one dequeued pair: from \<^verbatim>\<open>response = await request\<close>
  to the forwarding of the joined element.
\<close>

definition worker_process ::
  "lib \<Rightarrow> dispatch \<Rightarrow> ref \<Rightarrow> pyval \<Rightarrow> exn + response \<Rightarrow> unit prog" where
  "worker_process L d self element request =
     bnd (lift request) (\<lambda>response.
     bnd (lift (text_body response)) (\<lambda>response_body.
     bnd (if status response = 200
          then lift (JoinWithTable_parse_response L response_body)
          else if status response = 404 then ret PNone
          else raise (GetItemStatus (status response) response_body)) (\<lambda>response_object.
     if truthy response_object
     then bnd (get_join self) (\<lambda>j.
          bnd (lift (join_function j element response_object)) (\<lambda>joined_element.
          bnd (Flow_do_downstream L d self (Element joined_element)) (\<lambda>u. ret ())))
     else ret ())))"

text \<open>
  The \<^verbatim>\<open>while True\<close> loop of \<^verbatim>\<open>_worker\<close>, for at most \<open>n\<close> iterations. On an empty
  queue \<^verbatim>\<open>await self._q.get()\<close> suspends the task.
\<close>

datatype progress = Suspended | Finished

fun worker_loop :: "lib \<Rightarrow> dispatch \<Rightarrow> nat \<Rightarrow> ref \<Rightarrow> progress prog" where
  "worker_loop L d 0 self = (\<lambda>s. None)"
| "worker_loop L d (Suc n) self =
     bnd (get_join self) (\<lambda>j.
     case join_q j of
       None \<Rightarrow> raise AttributeError
     | Some [] \<Rightarrow> ret Suspended
     | Some (job # rest) \<Rightarrow>
         bnd (update_join self (\<lambda>j. j\<lparr>join_q := Some rest\<rparr>)) (\<lambda>u.
         case job of
           JobTermination \<Rightarrow> ret Finished
         | Job element request \<Rightarrow>
             bnd (worker_process L d self element request) (\<lambda>u.
             worker_loop L d n self)))"

text \<open>
  The worker task: the loop inside \<^verbatim>\<open>try\<close>, the handler that takes one more entry
  off the queue and re-raises, and \<^verbatim>\<open>finally\<close>, which closes the session. What the
  coroutine returns or raises is kept in the task.
\<close>

definition worker_exit :: "exn + pyval \<Rightarrow> join \<Rightarrow> join" where
  "worker_exit r j = j\<lparr>client_session := Some SessionClosed, worker_awaitable := Some (Done r)\<rparr>"

definition worker_drain :: "join \<Rightarrow> join" where
  "worker_drain j =
     (case join_q j of
        Some (pending # rest) \<Rightarrow> j\<lparr>join_q := Some rest\<rparr>
      | _ \<Rightarrow> j)"

definition JoinWithTable_worker :: "lib \<Rightarrow> dispatch \<Rightarrow> nat \<Rightarrow> ref \<Rightarrow> interference" where
  "JoinWithTable_worker L d n self =
     (\<lambda>s. case obj (heap s self) of
            JoinWithTable j \<Rightarrow>
              (if worker_awaitable j = Some Pending
               then (case worker_loop L d n self s of
                       None \<Rightarrow> None
                     | Some (Inr Suspended, s') \<Rightarrow> Some s'
                     | Some (Inr Finished, s') \<Rightarrow>
                         (case update_join self (worker_exit (Inr PNone)) s' of
                            None \<Rightarrow> None
                          | Some (r, s'') \<Rightarrow> Some s'')
                     | Some (Inl ex, s') \<Rightarrow>
                         (case update_join self (\<lambda>j. worker_exit (Inl ex) (worker_drain j)) s' of
                            None \<Rightarrow> None
                          | Some (r, s'') \<Rightarrow> Some s''))
               else Some s)
          | _ \<Rightarrow> Some s)"

definition JoinWithTable_lazy_init :: "ref \<Rightarrow> unit prog" where
  "JoinWithTable_lazy_init self =
     update_join self
       (\<lambda>j. j\<lparr>client_session := Some SessionOpen, join_q := Some [],
              worker_awaitable := Some Pending\<rparr>)"

text \<open>\<^verbatim>\<open>self._worker_awaitable.done()\<close> and \<^verbatim>\<open>await self._worker_awaitable\<close>.\<close>

definition worker_done :: "ref \<Rightarrow> bool prog" where
  "worker_done self =
     bnd (get_join self) (\<lambda>j.
     case worker_awaitable j of
       None \<Rightarrow> raise AttributeError
     | Some Pending \<Rightarrow> ret False
     | Some (Done r) \<Rightarrow> ret True)"

definition await_worker :: "interference \<Rightarrow> ref \<Rightarrow> pyval prog" where
  "await_worker w self =
     bnd (get_join self) (\<lambda>j.
     case worker_awaitable j of
       None \<Rightarrow> raise AttributeError
     | Some (Done r) \<Rightarrow> lift r
     | Some Pending \<Rightarrow>
         bnd (interfere w) (\<lambda>u.
         bnd (get_join self) (\<lambda>j.
         case worker_awaitable j of
           None \<Rightarrow> raise AttributeError
         | Some (Done r) \<Rightarrow> lift r
         | Some Pending \<Rightarrow> (\<lambda>s. None))))"

text \<open>\<^verbatim>\<open>await self._q.put(job)\<close> on the queue of capacity 8.\<close>

definition join_q_put :: "interference \<Rightarrow> ref \<Rightarrow> job \<Rightarrow> unit prog" where
  "join_q_put w self job =
     bnd (get_join self) (\<lambda>j.
     case join_q j of
       None \<Rightarrow> raise AttributeError
     | Some q \<Rightarrow>
         if length q < 8 then update_join self (\<lambda>j. j\<lparr>join_q := Some (q @ [job])\<rparr>)
         else
           bnd (interfere w) (\<lambda>u.
           bnd (get_join self) (\<lambda>j.
           case join_q j of
             None \<Rightarrow> raise AttributeError
           | Some q \<Rightarrow>
               if length q < 8 then update_join self (\<lambda>j. j\<lparr>join_q := Some (q @ [job])\<rparr>)
               else (\<lambda>s. None))))"

text \<open>
  \<^verbatim>\<open>JoinWithTable.do\<close>. The interference \<open>w\<close> is what the worker task does while this
  call is suspended.
\<close>

definition JoinWithTable_do :: "lib \<Rightarrow> interference \<Rightarrow> ref \<Rightarrow> elem \<Rightarrow> pyval prog" where
  "JoinWithTable_do L w self element =
     bnd (get_join self) (\<lambda>j.
     bnd (if client_session j = None then JoinWithTable_lazy_init self else ret ()) (\<lambda>u.
     bnd (worker_done self) (\<lambda>done.
     if done then bnd (await_worker w self) (\<lambda>r. raise WorkerAlreadyTerminated)
     else
       (case element of
          Termination_obj \<Rightarrow>
            bnd (join_q_put w self JobTermination) (\<lambda>u.
            bnd (await_worker w self) (\<lambda>r. ret PNone))
        | Element x \<Rightarrow>
            bnd (get_join self) (\<lambda>j.
            bnd (lift (key_extractor j x)) (\<lambda>key.
            bnd (join_q_put w self (Job x (session_put L key))) (\<lambda>u.
            bnd (worker_done self) (\<lambda>done.
            if done then bnd (await_worker w self) (\<lambda>r. ret PNone)
            else ret PNone))))))))"

section \<open>The Source and its controller\<close>

definition get_source :: "ref \<Rightarrow> source prog" where
  "get_source self =
     (\<lambda>s. case obj (heap s self) of
            Source src \<Rightarrow> Some (Inr src, s)
          | _ \<Rightarrow> Some (Inl AttributeError, s))"

definition update_source :: "ref \<Rightarrow> (source \<Rightarrow> source) \<Rightarrow> unit prog" where
  "update_source self f =
     (\<lambda>s. Some (Inr (),
                 update_node self
                   (\<lambda>n. case obj n of
                          Source src \<Rightarrow> n\<lparr>obj := Source (f src)\<rparr>
                        | _ \<Rightarrow> n) s))"

text \<open>\<^verbatim>\<open>self._termination_future.set_result(v)\<close>.\<close>

definition set_result :: "ref \<Rightarrow> pyval \<Rightarrow> unit prog" where
  "set_result self v =
     bnd (get_source self) (\<lambda>src.
     case termination_future src of
       None \<Rightarrow> raise AttributeError
     | Some (Done r) \<Rightarrow> raise InvalidStateError
     | Some Pending \<Rightarrow>
         update_source self (\<lambda>src. src\<lparr>termination_future := Some (Done (Inr v))\<rparr>))"

text \<open>
  One iteration of \<^verbatim>\<open>_run_loop\<close> after \<^verbatim>\<open>self._q.get\<close> has returned the element: the
  \<^verbatim>\<open>try\<close> block, the handler, and whether the loop is left.
\<close>

definition Source_run_loop_body :: "lib \<Rightarrow> dispatch \<Rightarrow> ref \<Rightarrow> elem \<Rightarrow> bool prog" where
  "Source_run_loop_body L d self element =
     (\<lambda>s. case bnd (Flow_do_downstream L d self element) (\<lambda>termination_result.
                 if element = Termination_obj then set_result self termination_result
                 else ret ()) s of
            None \<Rightarrow> None
          | Some (Inr u, s') \<Rightarrow> Some (Inr (element = Termination_obj), s')
          | Some (Inl ex, s') \<Rightarrow>
              bnd (update_source self (\<lambda>src. src\<lparr>source_ex := Some ex\<rparr>)) (\<lambda>u.
              bnd (update_source self
                     (\<lambda>src. case source_q src of
                              [] \<Rightarrow> src
                            | pending # rest \<Rightarrow> src\<lparr>source_q := rest\<rparr>)) (\<lambda>u.
              bnd (set_result self PNone) (\<lambda>u.
              ret True))) s')"

text \<open>
  The loop. The caller's thread runs beside it: \<open>w # ws\<close> lists what the caller does
  before each time the worker looks at the queue. With no entry left the worker waits
  for an element that never comes.
\<close>

fun Source_loop :: "lib \<Rightarrow> dispatch \<Rightarrow> interference list \<Rightarrow> ref \<Rightarrow> unit prog" where
  "Source_loop L d [] self = (\<lambda>s. None)"
| "Source_loop L d (w # ws) self =
     bnd (interfere w) (\<lambda>u.
     bnd (get_source self) (\<lambda>src.
     case source_q src of
       [] \<Rightarrow> Source_loop L d ws self
     | element # rest \<Rightarrow>
         bnd (update_source self (\<lambda>src. src\<lparr>source_q := rest\<rparr>)) (\<lambda>u.
         bnd (Source_run_loop_body L d self element) (\<lambda>leave.
         if leave then ret () else Source_loop L d ws self))))"

definition Source_run_loop :: "lib \<Rightarrow> dispatch \<Rightarrow> interference list \<Rightarrow> ref \<Rightarrow> unit prog" where
  "Source_run_loop L d ws self =
     bnd (update_source self (\<lambda>src. src\<lparr>termination_future := Some Pending\<rparr>)) (\<lambda>u.
     Source_loop L d ws self)"

definition Source_loop_thread_main ::
  "lib \<Rightarrow> dispatch \<Rightarrow> interference list \<Rightarrow> ref \<Rightarrow> unit prog" where
  "Source_loop_thread_main L d ws self =
     bnd (Source_run_loop L d ws self) (\<lambda>u.
     bnd (get_source self) (\<lambda>src.
     if length (termination_q src) < 1
     then update_source self (\<lambda>src. src\<lparr>termination_q := termination_q src @ [source_ex src]\<rparr>)
     else (\<lambda>s. None)))"

text \<open>
  \<^verbatim>\<open>_raise_on_error\<close>: an exception object is truthy; the cause of the
  \<^verbatim>\<open>FlowException\<close> is \<^verbatim>\<open>self._ex\<close>.
\<close>

definition Source_raise_on_error :: "ref \<Rightarrow> exn option \<Rightarrow> unit prog" where
  "Source_raise_on_error self ex =
     (case ex of
        None \<Rightarrow> ret ()
      | Some e \<Rightarrow> bnd (get_source self) (\<lambda>src. raise (FlowException (source_ex src))))"

text \<open>
  \<^verbatim>\<open>self._q.put(element)\<close> from the caller's thread: it waits while the queue is full.
  \<open>w\<close> is what the worker's thread does until the call returns.
\<close>

definition source_q_put :: "interference \<Rightarrow> ref \<Rightarrow> elem \<Rightarrow> unit prog" where
  "source_q_put w self element =
     bnd (interfere w) (\<lambda>u.
     bnd (get_source self) (\<lambda>src.
     if length (source_q src) < buffer_size src
     then update_source self (\<lambda>src. src\<lparr>source_q := source_q src @ [element]\<rparr>)
     else (\<lambda>s. None)))"

text \<open>
  \<^verbatim>\<open>Source._emit\<close>, with what the worker's thread does up to the end of the \<^verbatim>\<open>put\<close>
  (\<open>w1\<close>) and between the \<^verbatim>\<open>put\<close> and the second check (\<open>w2\<close>).
\<close>

definition Source_emit :: "interference \<Rightarrow> interference \<Rightarrow> ref \<Rightarrow> elem \<Rightarrow> unit prog" where
  "Source_emit w1 w2 self element =
     bnd (get_source self) (\<lambda>src.
     bnd (Source_raise_on_error self (source_ex src)) (\<lambda>u.
     bnd (source_q_put w1 self element) (\<lambda>u.
     bnd (interfere w2) (\<lambda>u.
     bnd (get_source self) (\<lambda>src.
     Source_raise_on_error self (source_ex src))))))"

text \<open>
  The closure that \<^verbatim>\<open>Source.run\<close> hands to the controller as \<^verbatim>\<open>await_termination\<close>;
  \<open>w\<close> is what the worker's thread does while the call waits on \<^verbatim>\<open>_termination_q\<close>.
\<close>

definition raise_error_or_return_termination_result :: "interference \<Rightarrow> ref \<Rightarrow> pyval prog" where
  "raise_error_or_return_termination_result w self =
     bnd (interfere w) (\<lambda>u.
     bnd (get_source self) (\<lambda>src.
     case termination_q src of
       [] \<Rightarrow> (\<lambda>s. None)
     | ex # rest \<Rightarrow>
         bnd (update_source self (\<lambda>src. src\<lparr>termination_q := rest\<rparr>)) (\<lambda>u.
         bnd (Source_raise_on_error self ex) (\<lambda>u.
         bnd (get_source self) (\<lambda>src.
         case termination_future src of
           None \<Rightarrow> raise AttributeError
         | Some Pending \<Rightarrow> raise InvalidStateError
         | Some (Done r) \<Rightarrow> lift r)))))"

definition FlowController_emit :: "interference \<Rightarrow> interference \<Rightarrow> ref \<Rightarrow> elem \<Rightarrow> unit prog" where
  "FlowController_emit w1 w2 source element = Source_emit w1 w2 source element"

definition FlowController_terminate :: "interference \<Rightarrow> interference \<Rightarrow> ref \<Rightarrow> unit prog" where
  "FlowController_terminate w1 w2 source = FlowController_emit w1 w2 source Termination_obj"

definition FlowController_await_termination :: "interference \<Rightarrow> ref \<Rightarrow> pyval prog" where
  "FlowController_await_termination w source = raise_error_or_return_termination_result w source"

section \<open>Dynamic dispatch of \<^verbatim>\<open>do\<close>\<close>

text \<open>
  \<^verbatim>\<open>outlet.do(element)\<close> chooses the method by the class of the object. The nesting of
  calls is bounded by \<open>n\<close>: a pipeline whose outlets form a cycle never returns. The
  Join node's worker is run when \<^verbatim>\<open>JoinWithTable.do\<close> suspends.
\<close>

fun do :: "lib \<Rightarrow> nat \<Rightarrow> ref \<Rightarrow> elem \<Rightarrow> pyval prog" where
  "do L 0 self element = (\<lambda>s. None)"
| "do L (Suc n) self element =
     (\<lambda>s. case obj (heap s self) of
            Flow \<Rightarrow> Flow_do self element s
          | Source src \<Rightarrow> Flow_do self element s
          | Map fn \<Rightarrow> UnaryFunctionFlow_do Map_do_internal L (do L n) self fn element s
          | Filter fn \<Rightarrow> UnaryFunctionFlow_do Filter_do_internal L (do L n) self fn element s
          | FlatMap fn \<Rightarrow> UnaryFunctionFlow_do FlatMap_do_internal L (do L n) self fn element s
          | Reduce fn result \<Rightarrow> Reduce_do self element s
          | JoinWithTable j \<Rightarrow>
              JoinWithTable_do L (JoinWithTable_worker L (do L n) n self) self element s)"

section \<open>Notions of the specification\<close>

text \<open>
  A pipeline definition is valid when it is not empty, its first entry is a node, every
  nested sequence is valid, and no node that gets an outlet is a Reduce node.
\<close>

definition is_Reduce :: "state \<Rightarrow> ref \<Rightarrow> bool" where
  "is_Reduce s r = (case obj (heap s r) of Reduce fn result \<Rightarrow> True | _ \<Rightarrow> False)"

fun valid_flow :: "(ref \<Rightarrow> bool) \<Rightarrow> step list \<Rightarrow> bool"
  and valid_chain :: "(ref \<Rightarrow> bool) \<Rightarrow> ref \<Rightarrow> step list \<Rightarrow> bool" where
  "valid_flow terminal [] = False"
| "valid_flow terminal (Node r # rest) = valid_chain terminal r rest"
| "valid_flow terminal (Steps l # rest) = False"
| "valid_chain terminal cur [] = True"
| "valid_chain terminal cur (Node n # rest) =
     (\<not> terminal cur \<and> valid_chain terminal n rest)"
| "valid_chain terminal cur (Steps sub # rest) =
     (\<not> terminal cur \<and> valid_flow terminal sub \<and> valid_chain terminal cur rest)"

text \<open>
  The parent-to-child links that the specification prescribes, in the order in which
  they are made: each node is chained to the next node of its own sequence; the root of
  a nested sequence becomes one more outlet of the current node, and the chaining of the
  outer sequence goes on from that same current node.
\<close>

fun spec_links :: "step list \<Rightarrow> (ref \<times> step) list"
  and spec_chain :: "ref \<Rightarrow> step list \<Rightarrow> (ref \<times> step) list" where
  "spec_links [] = []"
| "spec_links (Node r # rest) = spec_chain r rest"
| "spec_links (Steps l # rest) = []"
| "spec_chain cur [] = []"
| "spec_chain cur (Node n # rest) = (cur, Node n) # spec_chain n rest"
| "spec_chain cur (Steps sub # rest) =
     spec_links sub @ [(cur, hd sub)] @ spec_chain cur rest"

definition attach :: "ref \<times> step \<Rightarrow> state \<Rightarrow> state" where
  "attach l s = update_node (fst l) (\<lambda>n. n\<lparr>outlets := outlets n @ [snd l]\<rparr>) s"

text \<open>\<open>combine(accumulated, next)\<close> from left to right, up to the first exception.\<close>

fun fold_fn :: "binary_fn \<Rightarrow> pyval \<Rightarrow> pyval list \<Rightarrow> exn + pyval" where
  "fold_fn fn acc [] = Inr acc"
| "fold_fn fn acc (x # xs) =
     (case fn acc x of Inl e \<Rightarrow> Inl e | Inr acc' \<Rightarrow> fold_fn fn acc' xs)"

text \<open>A node fed the elements of a list, one call of \<^verbatim>\<open>do\<close> after the other.\<close>

fun feed :: "dispatch \<Rightarrow> ref \<Rightarrow> pyval list \<Rightarrow> unit prog" where
  "feed d self [] = ret ()"
| "feed d self (x # xs) = bnd (d self (Element x)) (\<lambda>u. feed d self xs)"

text \<open>
  What the tag convention of the Join node's responses says an attribute \<^verbatim>\<open>{typ: value}\<close>
  decodes to: a value tagged as string or boolean is passed on as it is; a text tagged
  as a number that is made of digits, or of a minus sign and digits, is that integer; a
  text tagged as a number that has a character other than the minus sign and the digits,
  and that \<^verbatim>\<open>float\<close> accepts, is that float.
\<close>

inductive decodes_to :: "lib \<Rightarrow> string \<Rightarrow> pyval \<Rightarrow> pyval \<Rightarrow> bool" for L where
  string_tag: "decodes_to L ''S'' value value"
| boolean_tag: "decodes_to L ''BOOL'' value value"
| digits: "ds \<noteq> [] \<Longrightarrow> list_all is_digit ds \<Longrightarrow>
     decodes_to L ''N'' (PStr ds) (PInt (digits_value ds))"
| minus_digits: "ds \<noteq> [] \<Longrightarrow> list_all is_digit ds \<Longrightarrow>
     decodes_to L ''N'' (PStr (CHR ''-'' # ds)) (PInt (- digits_value ds))"
| floating: "non_int_char_pattern_search v \<Longrightarrow> float_of_str L v = Some f \<Longrightarrow>
     decodes_to L ''N'' (PStr v) (PFloat f)"

definition attribute_decodes :: "lib \<Rightarrow> string \<times> pyval \<Rightarrow> string \<times> pyval \<Rightarrow> bool" where
  "attribute_decodes L attr decoded =
     (fst decoded = fst attr \<and>
      (\<exists>typ value. snd attr = PDict [(typ, value)] \<and> decodes_to L typ value (snd decoded)))"

text \<open>
  The Source object with new field values, and a program of another thread taken as an
  interference.
\<close>

definition set_source :: "ref \<Rightarrow> source \<Rightarrow> state \<Rightarrow> state" where
  "set_source self src s = update_node self (\<lambda>n. n\<lparr>obj := Source src\<rparr>) s"

definition as_interference :: "'a prog \<Rightarrow> interference" where
  "as_interference p = (\<lambda>s. case p s of None \<Rightarrow> None | Some (r, s') \<Rightarrow> Some s')"

section \<open>Example objects\<close>

text \<open>
  \<^verbatim>\<open>Flow.__init__\<close> with the default \<^verbatim>\<open>termination_result_fn\<close>, and a store in which
  the objects of an example are allocated.
\<close>

definition new_flow :: "payload \<Rightarrow> node" where
  "new_flow p = \<lparr>outlets = [], termination_result_fn = (\<lambda>x y. Inr PNone), obj = p\<rparr>"

definition empty_state :: state where
  "empty_state = \<lparr>heap = (\<lambda>r. new_flow Flow), stdout = []\<rparr>"

definition alloc :: "ref \<Rightarrow> node \<Rightarrow> state \<Rightarrow> state" where
  "alloc r n s = s\<lparr>heap := (heap s)(r := n)\<rparr>"

text \<open>
  User functions: the addition of two integers, which raises \<^verbatim>\<open>TypeError\<close> on
  anything else; \<^verbatim>\<open>lambda acc, x: acc + [x]\<close>, which raises \<^verbatim>\<open>TypeError\<close> unless
  \<^verbatim>\<open>acc\<close> is a list; \<^verbatim>\<open>lambda x: [x, x]\<close>; and \<^verbatim>\<open>lambda x: x\<close>.
\<close>

definition py_add :: binary_fn where
  "py_add a b = (case (a, b) of (PInt i, PInt j) \<Rightarrow> Inr (PInt (i + j)) | _ \<Rightarrow> Inl TypeError)"

definition py_append :: binary_fn where
  "py_append acc x = (case acc of PList xs \<Rightarrow> Inr (PList (xs @ [x])) | _ \<Rightarrow> Inl TypeError)"

definition py_dup :: unary_fn where
  "py_dup x = Inr (PList [x, x])"

definition py_id :: unary_fn where
  "py_id x = Inr x"

text \<open>The accumulator of a Reduce node.\<close>

definition result_of :: "state \<Rightarrow> ref \<Rightarrow> pyval" where
  "result_of s r = (case obj (heap s r) of Reduce fn result \<Rightarrow> result | _ \<Rightarrow> PNone)"

text \<open>A Map node 0, a Filter node 1 and two Reduce nodes 2 and 3, not yet linked.\<close>

definition branch_state :: state where
  "branch_state =
     alloc 0 (new_flow (Map py_id))
       (alloc 1 (new_flow (Filter py_id))
         (alloc 2 (new_flow (Reduce py_add (PInt 0)))
           (alloc 3 (new_flow (Reduce py_add (PInt 0))) empty_state)))"

text \<open>\<^verbatim>\<open>lambda a, b: [a, b]\<close> and \<^verbatim>\<open>lambda x: [x, 'a', x]\<close>.\<close>

definition py_pair :: binary_fn where
  "py_pair a b = Inr (PList [a, b])"

definition py_sandwich :: unary_fn where
  "py_sandwich x = Inr (PList [x, PStr ''a'', x])"

text \<open>
  A library for the examples: tasks run in order; four response bodies and what
  \<^verbatim>\<open>json.loads\<close> makes of them; two texts that \<^verbatim>\<open>float\<close> accepts; and a remote
  store that knows four keys.
\<close>

definition ex_json_loads :: "string \<Rightarrow> pyval option" where
  "ex_json_loads body =
     (if body = ''found'' then
        Some (PDict [(''Item'', PDict [(''name'', PDict [(''S'', PStr ''ann'')]),
                                       (''age'', PDict [(''N'', PStr ''-42'')]),
                                       (''ok'', PDict [(''BOOL'', PBool True)]),
                                       (''score'', PDict [(''N'', PStr ''1.5'')])])])
      else if body = ''plus'' then
        Some (PDict [(''Item'', PDict [(''n'', PDict [(''N'', PStr ''+5'')])])])
      else if body = ''empty'' then Some (PDict [(''Item'', PDict [])])
      else if body = ''blob'' then
        Some (PDict [(''Item'', PDict [(''b'', PDict [(''B'', PStr ''AAEC'')])])])
      else None)"

definition ex_float_of_str :: "string \<Rightarrow> pyfloat option" where
  "ex_float_of_str v =
     (if v = ''1.5'' then Some (Float 3 (- 1))
      else if v = ''+5'' then Some (Float 5 0)
      else None)"

definition ex_session_put :: "pyval \<Rightarrow> exn + response" where
  "ex_session_put key =
     (if key = PStr ''k1'' then Inr \<lparr>status = 200, text_body = Inr ''found''\<rparr>
      else if key = PStr ''k2'' then Inr \<lparr>status = 404, text_body = Inr ''missing''\<rparr>
      else if key = PStr ''k3'' then Inr \<lparr>status = 500, text_body = Inr ''oops''\<rparr>
      else if key = PStr ''k4'' then Inr \<lparr>status = 200, text_body = Inr ''empty''\<rparr>
      else Inl (UserError ''connection refused''))"

definition ex_lib :: lib where
  "ex_lib = \<lparr>run_tasks = run_in_order, json_loads = ex_json_loads,
              float_of_str = ex_float_of_str, session_put = ex_session_put\<rparr>"

text \<open>\<^verbatim>\<open>Reduce(0, add)\<close> alone.\<close>

definition sum_state :: state where
  "sum_state = alloc 0 (new_flow (Reduce py_add (PInt 0))) empty_state"


text \<open>A FlatMap node 0 whose only outlet is the Reduce node 1.\<close>

definition flatmap_state :: "unary_fn \<Rightarrow> binary_fn \<Rightarrow> pyval \<Rightarrow> state" where
  "flatmap_state fn combine acc =
     alloc 1 (new_flow (Reduce combine acc))
       (alloc 0 \<lparr>outlets = [Node 1], termination_result_fn = (\<lambda>x y. Inr PNone),
                obj = FlatMap fn\<rparr> empty_state)"

text \<open>
  \<^verbatim>\<open>JoinWithTable.__init__\<close>, and the Join node 0 with the Reduce node 1 as its
  only outlet, which collects what the Join node forwards. The key of an element is the
  element itself and the joined element is the pair of element and record.
\<close>

definition new_join :: "unary_fn \<Rightarrow> binary_fn \<Rightarrow> join" where
  "new_join key_fn join_fn =
     \<lparr>key_extractor = key_fn, join_function = join_fn, client_session = None,
      join_q = None, worker_awaitable = None\<rparr>"

definition join_state :: "join \<Rightarrow> pyval \<Rightarrow> state" where
  "join_state j collected =
     alloc 1 (new_flow (Reduce py_append collected))
       (alloc 0 \<lparr>outlets = [Node 1], termination_result_fn = (\<lambda>x y. Inr PNone),
                obj = JoinWithTable j\<rparr> empty_state)"

text \<open>The Join node while its worker runs, and after the worker has exited.\<close>

definition running_join :: "job list \<Rightarrow> join" where
  "running_join jobs =
     (new_join py_id py_pair)
       \<lparr>client_session := Some SessionOpen, join_q := Some jobs, worker_awaitable := Some Pending\<rparr>"

definition stopped_join :: "exn + pyval \<Rightarrow> join" where
  "stopped_join r =
     (new_join py_id py_pair)
       \<lparr>client_session := Some SessionClosed, join_q := Some [], worker_awaitable := Some (Done r)\<rparr>"

text \<open>The record that the body \<^verbatim>\<open>found\<close> decodes to.\<close>

definition ann :: pyval where
  "ann = PDict [(''name'', PStr ''ann''), (''age'', PInt (- 42)), (''ok'', PBool True),
                (''score'', PFloat (Float 3 (- 1)))]"

text \<open>
  \<^verbatim>\<open>Source.__init__\<close> for a buffer size, which the constructor asserts to be
  positive; and the pipeline of the Source node 0, the Map node 1 whose function raises
  on the integer 3, and the node 2, \<^verbatim>\<open>Reduce(0, add)\<close>. The Source is shown while its
  worker runs and after the worker has failed.
\<close>

definition py_fail_on_3 :: unary_fn where
  "py_fail_on_3 x = (if x = PInt 3 then Inl (UserError ''boom'') else Inr x)"

definition new_source :: "nat \<Rightarrow> source" where
  "new_source n =
     \<lparr>buffer_size = n, source_q = [], termination_q = [], source_ex = None,
      termination_future = None\<rparr>"

definition source_state :: "source \<Rightarrow> state" where
  "source_state src =
     alloc 0 \<lparr>outlets = [Node 1], termination_result_fn = (\<lambda>x y. Inr PNone), obj = Source src\<rparr>
       (alloc 1 \<lparr>outlets = [Node 2], termination_result_fn = (\<lambda>x y. Inr PNone),
                obj = Map py_fail_on_3\<rparr>
         (alloc 2 (new_flow (Reduce py_add (PInt 0))) empty_state))"

definition running_source :: "elem list \<Rightarrow> source" where
  "running_source pending = (new_source 2)\<lparr>source_q := pending, termination_future := Some Pending\<rparr>"

definition failed_source :: "exn option list \<Rightarrow> source" where
  "failed_source reported =
     (new_source 2)\<lparr>source_ex := Some (UserError ''boom''), termination_q := reported,
                     termination_future := Some (Done (Inr PNone))\<rparr>"

section \<open>The builder links the nodes as the nesting says\<close>

lemma is_Reduce_attach [simp]: "is_Reduce (attach l s) = is_Reduce s"
  by (rule ext) (simp add: is_Reduce_def attach_def update_node_def)

lemma is_Reduce_fold_attach [simp]: "is_Reduce (fold attach ls s) = is_Reduce s"
  by (induction ls arbitrary: s) simp_all

lemma lookup_to_Node:
  "\<not> is_Reduce s c \<Longrightarrow> lookup_to (Node c) s = Some (Inr (Flow_to c), s)"
  by (simp add: lookup_to_def is_Reduce_def ret_def split: payload.splits)

lemma Flow_to_attach: "Flow_to c x s = Some (Inr x, attach (c, x) s)"
  by (simp add: Flow_to_def attach_def)

lemma build_flow_links:
  "valid_flow terminal steps \<Longrightarrow> is_Reduce s = terminal \<Longrightarrow>
     build_flow steps s = Some (Inr (hd steps), fold attach (spec_links steps) s)"
  "valid_chain terminal cur rest \<Longrightarrow> is_Reduce s = terminal \<Longrightarrow>
     build_flow_loop (Node cur) rest s =
       Some (Inr (), fold attach (spec_chain cur rest) s)"
proof (induction terminal steps and terminal cur rest arbitrary: s and s
    rule: valid_flow_valid_chain.induct)
  case (1 terminal)
  then show ?case by simp
next
  case (2 terminal r rest)
  then show ?case by (simp add: bnd_def ret_def)
next
  case (3 terminal l rest)
  then show ?case by simp
next
  case (4 terminal cur)
  then show ?case by (simp add: ret_def)
next
  case (5 terminal cur n rest)
  from "5.prems" have open_end: "\<not> is_Reduce s cur"
    and tail_ok: "valid_chain terminal n rest" by auto
  have "is_Reduce (attach (cur, Node n) s) = terminal"
    using "5.prems" by simp
  from "5.IH" [OF tail_ok this] show ?case
    using open_end by (simp add: bnd_def lookup_to_Node Flow_to_attach)
next
  case (6 terminal cur sub rest)
  from "6.prems" have open_end: "\<not> is_Reduce s cur"
    and branch_ok: "valid_flow terminal sub"
    and tail_ok: "valid_chain terminal cur rest" by auto
  let ?built = "fold attach (spec_links sub) s"
  let ?joined = "attach (cur, hd sub) ?built"
  have branch: "build_flow sub s = Some (Inr (hd sub), ?built)"
    using "6.IH"(1) [OF branch_ok] "6.prems" by simp
  have "is_Reduce ?joined = terminal"
    using "6.prems" by simp
  from "6.IH"(2) [OF tail_ok this]
  have tail: "build_flow_loop (Node cur) rest ?joined =
      Some (Inr (), fold attach (spec_chain cur rest) ?joined)" .
  show ?case
    using open_end branch tail by (simp add: bnd_def lookup_to_Node Flow_to_attach)
qed

lemma outlets_attach:
  "outlets (heap (attach l s) r) = outlets (heap s r) @ (if fst l = r then [snd l] else [])"
  by (simp add: attach_def update_node_def)

lemma outlets_fold_attach:
  "outlets (heap (fold attach ls s) r) =
     outlets (heap s r) @ map snd (filter (\<lambda>l. fst l = r) ls)"
  by (induction ls arbitrary: s) (simp_all add: outlets_attach)

lemma fields_fold_attach:
  "obj (heap (fold attach ls s) r) = obj (heap s r)"
  "termination_result_fn (heap (fold attach ls s) r) = termination_result_fn (heap s r)"
  "stdout (fold attach ls s) = stdout s"
  by (induction ls arbitrary: s) (simp_all add: attach_def update_node_def)

text \<open>
  C1. For a valid pipeline definition \<^verbatim>\<open>build_flow\<close> returns the first node of the
  top-level sequence, and what it does to the store is to make the links of the
  specification in order: afterwards the outlets of every node are its former outlets
  followed by its children in the nesting, so the root of a branch and the node that
  follows the branch in the outer sequence are both outlets of the branch point. Nothing
  else changes and nothing is printed.
\<close>

theorem build_flow_matches_nesting:
  assumes "valid_flow (is_Reduce s) steps"
  shows "build_flow steps s = Some (Inr (hd steps), fold attach (spec_links steps) s) \<and>
         stdout (fold attach (spec_links steps) s) = stdout s \<and>
         (\<forall>r. outlets (heap (fold attach (spec_links steps) s) r) =
                 outlets (heap s r) @ map snd (filter (\<lambda>l. fst l = r) (spec_links steps)) \<and>
              obj (heap (fold attach (spec_links steps) s) r) = obj (heap s r) \<and>
              termination_result_fn (heap (fold attach (spec_links steps) s) r) =
                termination_result_fn (heap s r))"
  using build_flow_links(1) [OF assms refl]
  by (simp add: outlets_fold_attach fields_fold_attach)

theorem build_flow_matches_nesting_witness:
  "valid_flow (is_Reduce branch_state) [Node 0, Steps [Node 1, Node 2], Node 3] \<and>
   (\<exists>s'. build_flow [Node 0, Steps [Node 1, Node 2], Node 3] branch_state =
            Some (Inr (Node 0), s') \<and>
          outlets (heap s' 0) = [Node 1, Node 3] \<and>
          outlets (heap s' 1) = [Node 2] \<and>
          outlets (heap s' 2) = [] \<and>
          outlets (heap s' 3) = [])"
proof -
  have ok: "valid_flow (is_Reduce branch_state) [Node 0, Steps [Node 1, Node 2], Node 3]"
    by (simp add: is_Reduce_def branch_state_def alloc_def new_flow_def empty_state_def)
  have start: "outlets (heap branch_state r) = []" for r
    by (simp add: branch_state_def alloc_def new_flow_def empty_state_def)
  show ?thesis
    using ok build_flow_matches_nesting [OF ok] by (simp add: start)
qed

text \<open>
  C8. On the empty sequence \<^verbatim>\<open>build_flow\<close> prints its message and then evaluates
  \<^verbatim>\<open>steps[0]\<close>, which raises \<^verbatim>\<open>IndexError\<close>: the call does raise.
\<close>

theorem build_flow_empty_raises:
  "build_flow [] s =
     Some (Inl IndexError, s\<lparr>stdout := stdout s @ [''Cannot build an empty flow'']\<rparr>)"
  by (simp add: bnd_def print_def raise_def)

section \<open>Termination results are folded in the order of the outlets\<close>






section \<open>Reduce\<close>

lemma update_node_same: "f (heap s r) = heap s r \<Longrightarrow> update_node r f s = s"
  by (simp add: update_node_def)

lemma update_node_twice:
  "update_node r f (update_node r g s) = update_node r (\<lambda>n. f (g n)) s"
  by (simp add: update_node_def)

lemma Reduce_do_Termination:
  "obj (heap s self) = Reduce fn result \<Longrightarrow>
   Reduce_do self Termination_obj s = Some (Inr result, s)"
  by (simp add: Reduce_do_def)

lemma Reduce_do_Element:
  "obj (heap s self) = Reduce fn result \<Longrightarrow>
   Reduce_do self (Element x) s =
     (case fn result x of
        Inl e \<Rightarrow> Some (Inl e, s)
      | Inr res \<Rightarrow> Some (Inr PNone, update_node self (\<lambda>n. n\<lparr>obj := Reduce fn res\<rparr>) s))"
  by (simp add: Reduce_do_def)

lemma feed_Reduce:
  "obj (heap s self) = Reduce fn init \<Longrightarrow> fold_fn fn init xs = Inr acc \<Longrightarrow>
   feed Reduce_do self xs s =
     Some (Inr (), update_node self (\<lambda>n. n\<lparr>obj := Reduce fn acc\<rparr>) s)"
proof (induction xs arbitrary: s init)
  case Nil
  then show ?case by (simp add: ret_def update_node_same)
next
  case (Cons x xs)
  from Cons.prems(2) obtain res where step: "fn init x = Inr res"
    and rest: "fold_fn fn res xs = Inr acc"
    by (auto split: sum.splits)
  let ?s1 = "update_node self (\<lambda>n. n\<lparr>obj := Reduce fn res\<rparr>) s"
  have "obj (heap ?s1 self) = Reduce fn res" by (simp add: update_node_def)
  from Cons.IH [OF this rest] show ?case
    using Cons.prems(1) step
    by (simp add: bnd_def Reduce_do_Element update_node_twice)
qed

text \<open>
  C4. A Reduce node with the function \<open>fn\<close> and the accumulator \<open>init\<close>: the
  termination marker returns the accumulator and changes nothing; an ordinary element
  \<open>x\<close> replaces the accumulator by \<open>fn init x\<close> (or raises what \<open>fn\<close> raises and
  changes nothing); so elements fed one after the other are folded in their order of
  arrival, and terminating afterwards returns the folded value.
\<close>

theorem Reduce_folds_in_arrival_order:
  assumes "obj (heap s self) = Reduce fn init"
  shows "Reduce_do self Termination_obj s = Some (Inr init, s) \<and>
         (\<forall>x. Reduce_do self (Element x) s =
            (case fn init x of
               Inl e \<Rightarrow> Some (Inl e, s)
             | Inr res \<Rightarrow>
                 Some (Inr PNone, update_node self (\<lambda>n. n\<lparr>obj := Reduce fn res\<rparr>) s))) \<and>
         (\<forall>xs acc. fold_fn fn init xs = Inr acc \<longrightarrow>
            bnd (feed Reduce_do self xs) (\<lambda>u. Reduce_do self Termination_obj) s =
              Some (Inr acc, update_node self (\<lambda>n. n\<lparr>obj := Reduce fn acc\<rparr>) s))"
proof (intro conjI allI impI)
  show "Reduce_do self Termination_obj s = Some (Inr init, s)"
    using assms by (rule Reduce_do_Termination)
next
  fix x
  show "Reduce_do self (Element x) s =
          (case fn init x of
             Inl e \<Rightarrow> Some (Inl e, s)
           | Inr res \<Rightarrow>
               Some (Inr PNone, update_node self (\<lambda>n. n\<lparr>obj := Reduce fn res\<rparr>) s))"
    using assms by (rule Reduce_do_Element)
next
  fix xs acc
  assume "fold_fn fn init xs = Inr acc"
  from feed_Reduce [OF assms this]
  show "bnd (feed Reduce_do self xs) (\<lambda>u. Reduce_do self Termination_obj) s =
          Some (Inr acc, update_node self (\<lambda>n. n\<lparr>obj := Reduce fn acc\<rparr>) s)"
    by (simp add: bnd_def Reduce_do_def update_node_def)
qed

text \<open>\<^verbatim>\<open>Reduce(0, add)\<close> fed 1, 2, 3 and then terminated yields 6.\<close>

theorem Reduce_folds_in_arrival_order_witness:
  "obj (heap sum_state 0) = Reduce py_add (PInt 0) \<and>
   fold_fn py_add (PInt 0) [PInt 1, PInt 2, PInt 3] = Inr (PInt 6) \<and>
   bnd (feed Reduce_do 0 [PInt 1, PInt 2, PInt 3]) (\<lambda>u. Reduce_do 0 Termination_obj) sum_state =
     Some (Inr (PInt 6), update_node 0 (\<lambda>n. n\<lparr>obj := Reduce py_add (PInt 6)\<rparr>) sum_state)"
proof -
  have node: "obj (heap sum_state 0) = Reduce py_add (PInt 0)"
    by (simp add: sum_state_def alloc_def new_flow_def)
  have total: "fold_fn py_add (PInt 0) [PInt 1, PInt 2, PInt 3] = Inr (PInt 6)"
    by (simp add: py_add_def)
  show ?thesis
    using node total Reduce_folds_in_arrival_order [OF node] by blast
qed




section \<open>FlatMap forwards the items in order\<close>

lemma FlatMap_loop_trace:
  "length ss = Suc (length sent) \<Longrightarrow>
   \<forall>i < length sent.
     Flow_do_downstream L d self (Element (sent ! i)) (ss ! i) = Some (Inr PNone, ss ! Suc i) \<Longrightarrow>
   FlatMap_loop L d self (sent @ rest) (ss ! 0) = FlatMap_loop L d self rest (last ss)"
proof (induction sent arbitrary: ss)
  case Nil
  then obtain s0 where "ss = [s0]" by (cases ss) auto
  then show ?case by simp
next
  case (Cons a sent)
  then obtain s0 ss' where ss: "ss = s0 # ss'" and len: "length ss' = Suc (length sent)"
    by (cases ss) auto
  from Cons.prems(2) ss have first:
    "Flow_do_downstream L d self (Element a) s0 = Some (Inr PNone, ss' ! 0)"
    by auto
  from Cons.prems(2) ss have later: "\<forall>i < length sent.
     Flow_do_downstream L d self (Element (sent ! i)) (ss' ! i) = Some (Inr PNone, ss' ! Suc i)"
    by auto
  from len have "ss' \<noteq> []" by auto
  with Cons.IH [OF len later] first ss show ?case
    by (simp add: bnd_def)
qed

text \<open>
  C5. A FlatMap node whose function returns, for the element \<open>x\<close>, a sequence with the
  items \<open>sent @ rest\<close>. Let the items of \<open>sent\<close> be forwarded with success one after the
  other: item \<open>i\<close> is forwarded in the state \<open>ss ! i\<close> that its predecessor left and
  leaves \<open>ss ! Suc i\<close>. If they are all the items, \<^verbatim>\<open>do\<close> returns in the state the
  last one left. If forwarding the next item fails, \<^verbatim>\<open>do\<close> raises that exception in
  the state that the failure left, whatever items come after it: none of them is
  forwarded.
\<close>

theorem FlatMap_forwards_in_order:
  assumes "fn x = Inr result_elements"
    and "py_iter result_elements = Inr (sent @ rest)"
    and "length ss = Suc (length sent)"
    and "ss ! 0 = s"
    and "\<forall>i < length sent.
           Flow_do_downstream L d self (Element (sent ! i)) (ss ! i) = Some (Inr PNone, ss ! Suc i)"
  shows "(rest = [] \<longrightarrow>
            UnaryFunctionFlow_do FlatMap_do_internal L d self fn (Element x) s =
              Some (Inr PNone, last ss)) \<and>
         (\<forall>item rest' e s'.
            rest = item # rest' \<and>
            Flow_do_downstream L d self (Element item) (last ss) = Some (Inl e, s') \<longrightarrow>
            UnaryFunctionFlow_do FlatMap_do_internal L d self fn (Element x) s = Some (Inl e, s'))"
proof -
  have run: "UnaryFunctionFlow_do FlatMap_do_internal L d self fn (Element x) s =
      bnd (FlatMap_loop L d self rest) (\<lambda>u. ret PNone) (last ss)"
    using assms(1,2,4) FlatMap_loop_trace [OF assms(3,5), of rest]
    by (simp add: UnaryFunctionFlow_do_def FlatMap_do_internal_def bnd_def lift_def ret_def)
  show ?thesis
    unfolding run by (auto simp: bnd_def ret_def)
qed

lemma flatmap_state_forward:
  "Flow_do_downstream ex_lib (do ex_lib (Suc 0)) 0 (Element v) (flatmap_state fn combine acc) =
     (case combine acc v of
        Inl e \<Rightarrow> Some (Inl e, flatmap_state fn combine acc)
      | Inr acc' \<Rightarrow> Some (Inr PNone, flatmap_state fn combine acc'))"
  by (simp add: flatmap_state_def Flow_do_downstream_def bnd_def alloc_def ret_def ex_lib_def
      run_in_order_def Reduce_do_def new_flow_def update_node_def empty_state_def
      split: sum.splits)

text \<open>
  \<^verbatim>\<open>FlatMap(lambda x: [x, x])\<close> in front of a Reduce node that collects what it gets:
  fed 1 and 2 it forwards 1, 1, 2, 2. And with \<^verbatim>\<open>lambda x: [x, 'a', x]\<close> in front of
  \<^verbatim>\<open>Reduce(0, add)\<close> the second item fails and the third is not forwarded.
\<close>

theorem FlatMap_forwards_in_order_witness:
  "py_dup (PInt 1) = Inr (PList [PInt 1, PInt 1]) \<and>
   do ex_lib (Suc (Suc 0)) 0 (Element (PInt 1)) (flatmap_state py_dup py_append (PList [])) =
     Some (Inr PNone, flatmap_state py_dup py_append (PList [PInt 1, PInt 1])) \<and>
   bnd (feed (do ex_lib (Suc (Suc 0))) 0 [PInt 1, PInt 2])
       (\<lambda>u. do ex_lib (Suc (Suc 0)) 0 Termination_obj) (flatmap_state py_dup py_append (PList [])) =
     Some (Inr (PList [PInt 1, PInt 1, PInt 2, PInt 2]),
           flatmap_state py_dup py_append (PList [PInt 1, PInt 1, PInt 2, PInt 2])) \<and>
   do ex_lib (Suc (Suc 0)) 0 (Element (PInt 1)) (flatmap_state py_sandwich py_add (PInt 0)) =
     Some (Inl TypeError, flatmap_state py_sandwich py_add (PInt 1))"
proof -
  let ?d = "do ex_lib (Suc 0)"
  have dup: "py_dup v = Inr (PList [v, v])" for v
    by (simp add: py_dup_def)
  have node: "obj (heap (flatmap_state fn combine acc) 0) = FlatMap fn" for fn combine acc
    by (simp add: flatmap_state_def alloc_def)
  have one: "UnaryFunctionFlow_do FlatMap_do_internal ex_lib ?d 0 py_dup (Element v)
        (flatmap_state py_dup py_append (PList xs)) =
      Some (Inr PNone, flatmap_state py_dup py_append (PList (xs @ [v, v])))" for v xs
  proof -
    let ?ss = "[flatmap_state py_dup py_append (PList xs),
                flatmap_state py_dup py_append (PList (xs @ [v])),
                flatmap_state py_dup py_append (PList (xs @ [v, v]))]"
    have trace: "\<forall>i < length [v, v].
        Flow_do_downstream ex_lib ?d 0 (Element ([v, v] ! i)) (?ss ! i) = Some (Inr PNone, ?ss ! Suc i)"
      by (simp add: less_Suc_eq flatmap_state_forward py_append_def)
    from FlatMap_forwards_in_order [of py_dup v "PList [v, v]" "[v, v]" "[]" ?ss _ ex_lib ?d 0,
        OF dup _ _ refl trace]
    show ?thesis by simp
  qed
  have step: "do ex_lib (Suc (Suc 0)) 0 (Element v) (flatmap_state py_dup py_append (PList xs)) =
      Some (Inr PNone, flatmap_state py_dup py_append (PList (xs @ [v, v])))" for v xs
    using one [of v xs] node [of py_dup py_append "PList xs"] by simp
  have final: "do ex_lib (Suc (Suc 0)) 0 Termination_obj (flatmap_state py_dup py_append acc) =
      Some (Inr acc, flatmap_state py_dup py_append acc)" for acc
    by (simp add: flatmap_state_def alloc_def UnaryFunctionFlow_do_def Flow_do_downstream_def
        bnd_def get_outlet_def call_do_def Reduce_do_def new_flow_def ret_def)
  have stopped: "do ex_lib (Suc (Suc 0)) 0 (Element (PInt 1)) (flatmap_state py_sandwich py_add (PInt 0)) =
      Some (Inl TypeError, flatmap_state py_sandwich py_add (PInt 1))"
  proof -
    let ?ss = "[flatmap_state py_sandwich py_add (PInt 0), flatmap_state py_sandwich py_add (PInt 1)]"
    have trace: "\<forall>i < length [PInt 1].
        Flow_do_downstream ex_lib ?d 0 (Element ([PInt 1] ! i)) (?ss ! i) = Some (Inr PNone, ?ss ! Suc i)"
      by (simp add: flatmap_state_forward py_add_def)
    have fails: "Flow_do_downstream ex_lib ?d 0 (Element (PStr ''a'')) (last ?ss) =
        Some (Inl TypeError, flatmap_state py_sandwich py_add (PInt 1))"
      by (simp add: flatmap_state_forward py_add_def)
    from FlatMap_forwards_in_order [of py_sandwich "PInt 1" "PList [PInt 1, PStr ''a'', PInt 1]"
        "[PInt 1]" "[PStr ''a'', PInt 1]" ?ss _ ex_lib ?d 0, OF _ _ _ refl trace] fails
    have "UnaryFunctionFlow_do FlatMap_do_internal ex_lib ?d 0 py_sandwich (Element (PInt 1))
        (flatmap_state py_sandwich py_add (PInt 0)) =
      Some (Inl TypeError, flatmap_state py_sandwich py_add (PInt 1))"
      by (simp add: py_sandwich_def)
    then show ?thesis
      using node [of py_sandwich py_add "PInt 0"] by simp
  qed
  show ?thesis
    using dup [of "PInt 1"] step [of "PInt 1" "[]"] step [of "PInt 2" "[PInt 1, PInt 1]"]
      final [of "PList [PInt 1, PInt 1, PInt 2, PInt 2]"] stopped
    by (simp add: bnd_def ret_def)
qed

section \<open>The Join node after its worker has exited\<close>

text \<open>
  C10. Once the Join node is initialised and its worker task is done, \<^verbatim>\<open>do\<close> raises
  and leaves the state as it is: the element is neither looked up nor queued. It raises
  the worker's exception when the worker exited with one, and the exception
  "worker has already terminated" when the worker returned.
\<close>

theorem JoinWithTable_do_after_worker_done:
  assumes "obj (heap s self) = JoinWithTable j"
    and "client_session j = Some c"
    and "worker_awaitable j = Some (Done r)"
  shows "JoinWithTable_do L w self element s =
           Some (Inl (case r of Inl ex \<Rightarrow> ex | Inr v \<Rightarrow> WorkerAlreadyTerminated), s)"
  using assms
  by (simp add: JoinWithTable_do_def bnd_def get_join_def ret_def worker_done_def
      await_worker_def lift_def raise_def split: sum.splits)

text \<open>
  The worker is done after the termination marker has been processed, and after it
  aborted on a response with status 500; either way the next \<^verbatim>\<open>do\<close> raises.
\<close>

lemma join_terminates:
  "do ex_lib (Suc (Suc 0)) 0 Termination_obj (join_state (new_join py_id py_pair) (PList [])) =
     Some (Inr PNone, join_state (stopped_join (Inr PNone)) (PList []))"
  by (simp add: join_state_def new_join_def stopped_join_def alloc_def JoinWithTable_do_def
      bnd_def get_join_def ret_def JoinWithTable_lazy_init_def update_join_def update_node_def
      worker_done_def join_q_put_def await_worker_def interfere_def JoinWithTable_worker_def
      worker_exit_def lift_def empty_state_def new_flow_def fun_upd_twist)

lemma join_aborts:
  "bnd (do ex_lib (Suc (Suc 0)) 0 (Element (PStr ''k3'')))
       (\<lambda>u. do ex_lib (Suc (Suc 0)) 0 Termination_obj)
       (join_state (new_join py_id py_pair) (PList [])) =
     Some (Inl (GetItemStatus 500 ''oops''),
           join_state (stopped_join (Inl (GetItemStatus 500 ''oops''))) (PList []))"
  by (simp add: join_state_def new_join_def stopped_join_def alloc_def JoinWithTable_do_def
      bnd_def get_join_def ret_def JoinWithTable_lazy_init_def update_join_def update_node_def
      worker_done_def join_q_put_def await_worker_def interfere_def JoinWithTable_worker_def
      worker_exit_def worker_drain_def lift_def empty_state_def new_flow_def fun_upd_twist
      py_id_def ex_lib_def ex_session_put_def worker_process_def raise_def)

theorem JoinWithTable_do_after_worker_done_witness:
  "do ex_lib (Suc (Suc 0)) 0 Termination_obj (join_state (new_join py_id py_pair) (PList [])) =
     Some (Inr PNone, join_state (stopped_join (Inr PNone)) (PList [])) \<and>
   do ex_lib (Suc (Suc 0)) 0 (Element (PStr ''k1'')) (join_state (stopped_join (Inr PNone)) (PList [])) =
     Some (Inl WorkerAlreadyTerminated, join_state (stopped_join (Inr PNone)) (PList [])) \<and>
   bnd (do ex_lib (Suc (Suc 0)) 0 (Element (PStr ''k3'')))
       (\<lambda>u. do ex_lib (Suc (Suc 0)) 0 Termination_obj)
       (join_state (new_join py_id py_pair) (PList [])) =
     Some (Inl (GetItemStatus 500 ''oops''),
           join_state (stopped_join (Inl (GetItemStatus 500 ''oops''))) (PList [])) \<and>
   do ex_lib (Suc (Suc 0)) 0 (Element (PStr ''k1''))
       (join_state (stopped_join (Inl (GetItemStatus 500 ''oops''))) (PList [])) =
     Some (Inl (GetItemStatus 500 ''oops''),
           join_state (stopped_join (Inl (GetItemStatus 500 ''oops''))) (PList []))"
proof -
  have node: "obj (heap (join_state (stopped_join r) acc) 0) = JoinWithTable (stopped_join r)" for r acc
    by (simp add: join_state_def alloc_def)
  have session: "client_session (stopped_join r) = Some SessionClosed"
    and task: "worker_awaitable (stopped_join r) = Some (Done r)" for r
    by (simp_all add: stopped_join_def)
  have refused: "JoinWithTable_do ex_lib w 0 element (join_state (stopped_join r) acc) =
      Some (Inl (case r of Inl ex \<Rightarrow> ex | Inr v \<Rightarrow> WorkerAlreadyTerminated),
            join_state (stopped_join r) acc)" for w element r acc
    by (rule JoinWithTable_do_after_worker_done [OF node session task])
  show ?thesis
    using join_terminates join_aborts by (simp add: node refused)
qed

section \<open>The Join node's worker\<close>

lemma worker_aborts:
  assumes "obj (heap s self) = JoinWithTable j"
    and "join_q j = Some (Job element request # rest)"
    and "worker_awaitable j = Some Pending"
    and "worker_process L d self element request
           (update_node self (\<lambda>n. n\<lparr>obj := JoinWithTable (j\<lparr>join_q := Some rest\<rparr>)\<rparr>) s) =
         Some (Inl ex, update_node self (\<lambda>n. n\<lparr>obj := JoinWithTable (j\<lparr>join_q := Some rest\<rparr>)\<rparr>) s)"
  shows "JoinWithTable_worker L d (Suc n) self s =
           Some (update_node self
                  (\<lambda>n. n\<lparr>obj := JoinWithTable
                     (j\<lparr>join_q := Some (drop 1 rest), client_session := Some SessionClosed,
                        worker_awaitable := Some (Done (Inl ex))\<rparr>)\<rparr>) s)"
proof -
  let ?s1 = "update_node self (\<lambda>n. n\<lparr>obj := JoinWithTable (j\<lparr>join_q := Some rest\<rparr>)\<rparr>) s"
  have deq: "update_join self (\<lambda>j. j\<lparr>join_q := Some rest\<rparr>) s = Some (Inr (), ?s1)"
    using assms(1) by (simp add: update_join_def update_node_def)
  have loop: "worker_loop L d (Suc n) self s = Some (Inl ex, ?s1)"
    using assms(1,2,4) deq by (simp add: bnd_def get_join_def)
  have fin: "update_join self (\<lambda>j. worker_exit (Inl ex) (worker_drain j)) ?s1 =
      Some (Inr (), update_node self
                  (\<lambda>n. n\<lparr>obj := JoinWithTable
                     (j\<lparr>join_q := Some (drop 1 rest), client_session := Some SessionClosed,
                        worker_awaitable := Some (Done (Inl ex))\<rparr>)\<rparr>) s)"
    by (cases rest) (simp_all add: update_join_def update_node_def worker_exit_def worker_drain_def)
  show ?thesis
    using assms(1,3) loop fin by (simp add: JoinWithTable_worker_def)
qed

text \<open>
  C7, as the code has it. For a dequeued element whose request gives a response with a
  readable body: on status 404 the worker goes on and the state is unchanged (nothing is
  forwarded, nothing is raised); on status 200 with a body that decodes to a record
  with at least one attribute, on which the join function returns, the worker forwards
  the joined element through \<^verbatim>\<open>_do_downstream\<close> once; on any other status the worker
  raises, which ends the worker task with that exception after at most one more entry
  has been taken off the queue and the session has been closed.
\<close>

theorem worker_handles_response:
  assumes "obj (heap s self) = JoinWithTable j"
    and "request = Inr response"
    and "text_body response = Inr response_body"
  shows "(status response = 404 \<longrightarrow>
            worker_process L d self element request s = Some (Inr (), s)) \<and>
         (\<forall>attrs joined.
            status response = 200 \<and>
            JoinWithTable_parse_response L response_body = Inr (PDict attrs) \<and> attrs \<noteq> [] \<and>
            join_function j element (PDict attrs) = Inr joined \<longrightarrow>
            worker_process L d self element request s =
              bnd (Flow_do_downstream L d self (Element joined)) (\<lambda>u. ret ()) s) \<and>
         (status response \<noteq> 200 \<and> status response \<noteq> 404 \<longrightarrow>
            worker_process L d self element request s =
              Some (Inl (GetItemStatus (status response) response_body), s) \<and>
            (\<forall>n rest.
               join_q j = Some (Job element request # rest) \<and>
               worker_awaitable j = Some Pending \<longrightarrow>
               JoinWithTable_worker L d (Suc n) self s =
                 Some (update_node self
                   (\<lambda>n. n\<lparr>obj := JoinWithTable
                      (j\<lparr>join_q := Some (drop 1 rest), client_session := Some SessionClosed,
                         worker_awaitable :=
                           Some (Done (Inl (GetItemStatus (status response) response_body)))\<rparr>)\<rparr>) s)))"
proof (intro conjI allI impI)
  assume "status response = 404"
  then show "worker_process L d self element request s = Some (Inr (), s)"
    using assms by (simp add: worker_process_def bnd_def lift_def ret_def)
next
  fix attrs joined
  assume "status response = 200 \<and>
            JoinWithTable_parse_response L response_body = Inr (PDict attrs) \<and> attrs \<noteq> [] \<and>
            join_function j element (PDict attrs) = Inr joined"
  then show "worker_process L d self element request s =
              bnd (Flow_do_downstream L d self (Element joined)) (\<lambda>u. ret ()) s"
    using assms by (simp add: worker_process_def bnd_def lift_def ret_def get_join_def)
next
  assume other: "status response \<noteq> 200 \<and> status response \<noteq> 404"
  have fails: "worker_process L d self element request s' =
      Some (Inl (GetItemStatus (status response) response_body), s')" for s'
    using assms(2,3) other by (simp add: worker_process_def bnd_def lift_def ret_def raise_def)
  show "worker_process L d self element request s =
      Some (Inl (GetItemStatus (status response) response_body), s)"
    by (rule fails)
  fix n rest
  assume "join_q j = Some (Job element request # rest) \<and> worker_awaitable j = Some Pending"
  then show "JoinWithTable_worker L d (Suc n) self s =
                 Some (update_node self
                   (\<lambda>n. n\<lparr>obj := JoinWithTable
                      (j\<lparr>join_q := Some (drop 1 rest), client_session := Some SessionClosed,
                         worker_awaitable :=
                           Some (Done (Inl (GetItemStatus (status response) response_body)))\<rparr>)\<rparr>) s)"
    using worker_aborts [OF assms(1) _ _ fails] by simp
qed

lemma parse_found: "JoinWithTable_parse_response ex_lib ''found'' = Inr ann"
  by (simp add: JoinWithTable_parse_response_def ex_lib_def ex_json_loads_def ann_def
      non_int_char_pattern_search_def is_digit_def py_int_def digits_value_def ex_float_of_str_def)

lemma parse_empty: "JoinWithTable_parse_response ex_lib ''empty'' = Inr (PDict [])"
  by (simp add: JoinWithTable_parse_response_def ex_lib_def ex_json_loads_def)

lemma join_state_forward:
  "Flow_do_downstream ex_lib (do ex_lib (Suc 0)) 0 (Element v) (join_state j (PList xs)) =
     Some (Inr PNone, join_state j (PList (xs @ [v])))"
  by (simp add: join_state_def Flow_do_downstream_def bnd_def alloc_def ret_def ex_lib_def
      run_in_order_def Reduce_do_def new_flow_def update_node_def empty_state_def py_append_def)

theorem worker_handles_response_witness:
  "worker_process ex_lib (do ex_lib (Suc 0)) 0 (PStr ''k2'') (ex_session_put (PStr ''k2''))
       (join_state (running_join []) (PList [])) =
     Some (Inr (), join_state (running_join []) (PList [])) \<and>
   worker_process ex_lib (do ex_lib (Suc 0)) 0 (PStr ''k1'') (ex_session_put (PStr ''k1''))
       (join_state (running_join []) (PList [])) =
     Some (Inr (), join_state (running_join []) (PList [PList [PStr ''k1'', ann]])) \<and>
   worker_process ex_lib (do ex_lib (Suc 0)) 0 (PStr ''k3'') (ex_session_put (PStr ''k3''))
       (join_state (running_join []) (PList [])) =
     Some (Inl (GetItemStatus 500 ''oops''), join_state (running_join []) (PList [])) \<and>
   JoinWithTable_worker ex_lib (do ex_lib (Suc 0)) (Suc 0) 0
       (join_state (running_join [Job (PStr ''k3'') (ex_session_put (PStr ''k3'')),
                                  Job (PStr ''k1'') (ex_session_put (PStr ''k1''))]) (PList [])) =
     Some (join_state (stopped_join (Inl (GetItemStatus 500 ''oops''))) (PList []))"
proof -
  let ?d = "do ex_lib (Suc 0)"
  have node: "obj (heap (join_state j acc) 0) = JoinWithTable j" for j acc
    by (simp add: join_state_def alloc_def)
  have put: "ex_session_put (PStr ''k1'') = Inr \<lparr>status = 200, text_body = Inr ''found''\<rparr>"
    "ex_session_put (PStr ''k2'') = Inr \<lparr>status = 404, text_body = Inr ''missing''\<rparr>"
    "ex_session_put (PStr ''k3'') = Inr \<lparr>status = 500, text_body = Inr ''oops''\<rparr>"
    by (simp_all add: ex_session_put_def)
  have joined: "join_function (running_join jobs) (PStr ''k1'') ann = Inr (PList [PStr ''k1'', ann])" for jobs
    by (simp add: running_join_def new_join_def py_pair_def)
  have nonempty: "ann = PDict [(''name'', PStr ''ann''), (''age'', PInt (- 42)), (''ok'', PBool True),
                (''score'', PFloat (Float 3 (- 1)))]"
    by (simp add: ann_def)
  have body: "text_body \<lparr>status = c, text_body = Inr b\<rparr> = Inr b" for c :: int and b
    by simp
  have missing: "worker_process ex_lib ?d 0 (PStr ''k2'') (ex_session_put (PStr ''k2''))
       (join_state (running_join []) (PList [])) =
     Some (Inr (), join_state (running_join []) (PList []))"
    using worker_handles_response [OF node [of "running_join []" "PList []"] refl
        body [of 404 "''missing''"], where L = ex_lib and d = ?d and element = "PStr ''k2''"]
    by (simp add: put)
  have found: "worker_process ex_lib ?d 0 (PStr ''k1'') (ex_session_put (PStr ''k1''))
       (join_state (running_join []) (PList [])) =
     Some (Inr (), join_state (running_join []) (PList [PList [PStr ''k1'', ann]]))"
    using worker_handles_response [OF node [of "running_join []" "PList []"] refl
        body [of 200 "''found''"], where L = ex_lib and d = ?d and element = "PStr ''k1''"]
      parse_found joined [of "[]"]
    by (auto simp add: join_state_forward bnd_def ret_def put ann_def)
  have failed: "worker_process ex_lib ?d 0 (PStr ''k3'') (ex_session_put (PStr ''k3'')) s =
     Some (Inl (GetItemStatus 500 ''oops''), s)" for s
    by (simp add: put worker_process_def bnd_def lift_def ret_def raise_def)
  let ?jobs = "[Job (PStr ''k3'') (Inr \<lparr>status = 500, text_body = Inr ''oops''\<rparr>),
               Job (PStr ''k1'') (Inr \<lparr>status = 200, text_body = Inr ''found''\<rparr>)]"
  note abort = worker_handles_response [OF node [of "running_join ?jobs" "PList []"] refl
      body [of 500 "''oops''"], where L = ex_lib and d = ?d and element = "PStr ''k3''",
      THEN conjunct2, THEN conjunct2, rule_format, THEN conjunct2, rule_format,
      where n = 0 and rest = "[Job (PStr ''k1'') (Inr \<lparr>status = 200, text_body = Inr ''found''\<rparr>)]"]
  have left: "update_node 0
      (\<lambda>n. n\<lparr>obj := JoinWithTable
         ((running_join ?jobs)\<lparr>join_q := Some [], client_session := Some SessionClosed,
            worker_awaitable := Some (Done (Inl (GetItemStatus 500 ''oops'')))\<rparr>)\<rparr>)
      (join_state (running_join ?jobs) (PList [])) =
    join_state (stopped_join (Inl (GetItemStatus 500 ''oops''))) (PList [])"
    by (simp add: running_join_def stopped_join_def join_state_def update_node_def alloc_def
        new_join_def fun_upd_twist)
  have aborted: "JoinWithTable_worker ex_lib ?d (Suc 0) 0
       (join_state (running_join [Job (PStr ''k3'') (ex_session_put (PStr ''k3'')),
                                  Job (PStr ''k1'') (ex_session_put (PStr ''k1''))]) (PList [])) =
     Some (join_state (stopped_join (Inl (GetItemStatus 500 ''oops''))) (PList []))"
    using abort left by (simp add: put running_join_def)
  show ?thesis
    using missing found failed aborted by simp
qed

text \<open>
  A response with status 200 whose body is \<^verbatim>\<open>{"Item": {}}\<close> decodes to the empty
  record, which \<^verbatim>\<open>if response_object:\<close> takes for no record: the join function is not
  applied and nothing is forwarded, although forwarding the joined element would have
  reached the Reduce node.
\<close>

theorem empty_record_counterexample:
  "ex_session_put (PStr ''k4'') = Inr \<lparr>status = 200, text_body = Inr ''empty''\<rparr> \<and>
   JoinWithTable_parse_response ex_lib ''empty'' = Inr (PDict []) \<and>
   join_function (running_join []) (PStr ''k4'') (PDict []) = Inr (PList [PStr ''k4'', PDict []]) \<and>
   worker_process ex_lib (do ex_lib (Suc 0)) 0 (PStr ''k4'') (ex_session_put (PStr ''k4''))
       (join_state (running_join []) (PList [])) =
     Some (Inr (), join_state (running_join []) (PList [])) \<and>
   Flow_do_downstream ex_lib (do ex_lib (Suc 0)) 0 (Element (PList [PStr ''k4'', PDict []]))
       (join_state (running_join []) (PList [])) =
     Some (Inr PNone, join_state (running_join []) (PList [PList [PStr ''k4'', PDict []]])) \<and>
   result_of (join_state (running_join []) (PList [])) 1 = PList [] \<and>
   result_of (join_state (running_join []) (PList [PList [PStr ''k4'', PDict []]])) 1 =
     PList [PList [PStr ''k4'', PDict []]]"
proof -
  have answer: "ex_session_put (PStr ''k4'') = Inr \<lparr>status = 200, text_body = Inr ''empty''\<rparr>"
    by (simp add: ex_session_put_def)
  have joined: "join_function (running_join []) (PStr ''k4'') (PDict []) =
      Inr (PList [PStr ''k4'', PDict []])"
    by (simp add: running_join_def new_join_def py_pair_def)
  have dropped: "worker_process ex_lib (do ex_lib (Suc 0)) 0 (PStr ''k4'') (ex_session_put (PStr ''k4'')) s =
      Some (Inr (), s)" for s
    by (simp add: answer parse_empty worker_process_def bnd_def lift_def ret_def)
  have held: "result_of (join_state j acc) (Suc 0) = acc" for j acc
    by (simp add: result_of_def join_state_def alloc_def new_flow_def)
  show ?thesis
    using answer parse_empty joined dropped
      join_state_forward [of "PList [PStr ''k4'', PDict []]" "running_join []" "[]"]
    by (simp add: held)
qed

section \<open>Decoding a response\<close>

lemma digit_not_minus: "is_digit c \<Longrightarrow> c \<noteq> CHR ''-''"
  by (auto simp: is_digit_def)

lemma digits_no_other_char:
  "list_all is_digit ds \<Longrightarrow> \<not> non_int_char_pattern_search ds"
  "list_all is_digit ds \<Longrightarrow> \<not> non_int_char_pattern_search (CHR ''-'' # ds)"
  by (simp_all add: non_int_char_pattern_search_def list_ex_iff list_all_iff)

lemma py_int_digits:
  "ds \<noteq> [] \<Longrightarrow> list_all is_digit ds \<Longrightarrow> py_int ds = Inr (digits_value ds)"
  "ds \<noteq> [] \<Longrightarrow> list_all is_digit ds \<Longrightarrow> py_int (CHR ''-'' # ds) = Inr (- digits_value ds)"
  by (cases ds; simp add: py_int_def digit_not_minus)+

lemma parse_single_tag:
  "decodes_to L typ value out \<Longrightarrow> parse_type_to_value L [(typ, value)] val = Inr out"
  by (induction rule: decodes_to.induct)
    (simp_all add: digits_no_other_char py_int_digits)

lemma dict_set_found:
  "name \<notin> fst ` set before \<Longrightarrow>
   dict_set name val (before @ (name, old) # after) = before @ (name, val) # after"
  by (induction before) auto

lemma parse_items_decoded:
  "list_all2 (attribute_decodes L) items outs \<Longrightarrow> distinct (map fst (before @ items)) \<Longrightarrow>
   parse_items L items (before @ items) = Inr (before @ outs)"
proof (induction items outs arbitrary: before rule: list_all2_induct)
  case Nil
  then show ?case by simp
next
  case (Cons attr items decoded outs)
  obtain name ttv where attr: "attr = (name, ttv)" by (cases attr)
  obtain name' out where decoded: "decoded = (name', out)" by (cases decoded)
  from Cons.hyps(1) attr decoded obtain tag v where same: "name' = name"
    and single: "ttv = PDict [(tag, v)]" and out: "decodes_to L tag v out"
    by (auto simp: attribute_decodes_def)
  from Cons.prems attr have fresh: "name \<notin> fst ` set before" by auto
  from Cons.prems attr have "distinct (map fst ((before @ [(name, out)]) @ items))" by auto
  from Cons.IH [OF this] show ?case
    using attr decoded same single parse_single_tag [OF out] dict_set_found [OF fresh]
    by simp
qed

lemma parse_items_unsupported:
  "list_all2 (attribute_decodes L) pre outs \<Longrightarrow>
   typ \<noteq> ''S'' \<Longrightarrow> typ \<noteq> ''BOOL'' \<Longrightarrow> typ \<noteq> ''N'' \<Longrightarrow>
   parse_items L (pre @ (name, PDict ((typ, value) # others)) # post) response_object =
     Inl (UnsupportedType typ)"
proof (induction pre outs arbitrary: response_object rule: list_all2_induct)
  case Nil
  then show ?case by simp
next
  case (Cons attr pre decoded outs)
  obtain name1 ttv where attr: "attr = (name1, ttv)" by (cases attr)
  from Cons.hyps(1) attr obtain typ1 value1 out where
    single: "ttv = PDict [(typ1, value1)]" and out: "decodes_to L typ1 value1 out"
    by (auto simp: attribute_decodes_def)
  show ?case
    using attr single parse_single_tag [OF out] Cons.IH [OF Cons.prems(1,2,3)]
    by simp
qed

text \<open>
  C6, as the code has it. Let the body be JSON with a record under \<^verbatim>\<open>Item\<close>. If
  the attributes have distinct names and each is \<^verbatim>\<open>{typ: value}\<close> with a tag and a
  value that the convention decodes, the result maps every name to the decoded value.
  If an attribute starts with a tag other than \<^verbatim>\<open>S\<close>, \<^verbatim>\<open>BOOL\<close> and \<^verbatim>\<open>N\<close>, and the
  attributes before it decode, \<^verbatim>\<open>_parse_response\<close> raises the exception for the
  unsupported type, and a worker that takes a response with status 200 and this body
  off its queue ends with that exception.
\<close>

theorem parse_response_decodes_by_tag:
  assumes "json_loads L body = Some (PDict loaded)"
    and "map_of loaded ''Item'' = Some (PDict items)"
  shows "(\<forall>outs.
            distinct (map fst items) \<and> list_all2 (attribute_decodes L) items outs \<longrightarrow>
            JoinWithTable_parse_response L body = Inr (PDict outs)) \<and>
         (\<forall>pre outs name tag v others post.
            items = pre @ (name, PDict ((tag, v) # others)) # post \<and>
            list_all2 (attribute_decodes L) pre outs \<and>
            tag \<noteq> ''S'' \<and> tag \<noteq> ''BOOL'' \<and> tag \<noteq> ''N'' \<longrightarrow>
            JoinWithTable_parse_response L body = Inl (UnsupportedType tag) \<and>
            (\<forall>d self element s j n rest.
               obj (heap s self) = JoinWithTable j \<and>
               join_q j = Some (Job element (Inr \<lparr>status = 200, text_body = Inr body\<rparr>) # rest) \<and>
               worker_awaitable j = Some Pending \<longrightarrow>
               JoinWithTable_worker L d (Suc n) self s =
                 Some (update_node self
                   (\<lambda>n. n\<lparr>obj := JoinWithTable
                      (j\<lparr>join_q := Some (drop 1 rest), client_session := Some SessionClosed,
                         worker_awaitable := Some (Done (Inl (UnsupportedType tag)))\<rparr>)\<rparr>) s)))"
proof (intro conjI allI impI)
  fix outs
  assume ok: "distinct (map fst items) \<and> list_all2 (attribute_decodes L) items outs"
  then have "parse_items L items ([] @ items) = Inr ([] @ outs)"
    by (intro parse_items_decoded) simp_all
  then show "JoinWithTable_parse_response L body = Inr (PDict outs)"
    using assms by (simp add: JoinWithTable_parse_response_def)
next
  fix pre outs name tag v others post
  assume bad: "items = pre @ (name, PDict ((tag, v) # others)) # post \<and>
            list_all2 (attribute_decodes L) pre outs \<and>
            tag \<noteq> ''S'' \<and> tag \<noteq> ''BOOL'' \<and> tag \<noteq> ''N''"
  then have "parse_items L items items = Inl (UnsupportedType tag)"
    using parse_items_unsupported [of L pre outs tag name v others post items] by simp
  then show raised: "JoinWithTable_parse_response L body = Inl (UnsupportedType tag)"
    using assms by (simp add: JoinWithTable_parse_response_def)
  fix d self element and s :: state and j n rest
  assume at_head: "obj (heap s self) = JoinWithTable j \<and>
               join_q j = Some (Job element (Inr \<lparr>status = 200, text_body = Inr body\<rparr>) # rest) \<and>
               worker_awaitable j = Some Pending"
  have "worker_process L d self element (Inr \<lparr>status = 200, text_body = Inr body\<rparr>) s' =
      Some (Inl (UnsupportedType tag), s')" for s'
    using raised by (simp add: worker_process_def bnd_def lift_def ret_def raise_def)
  with at_head show "JoinWithTable_worker L d (Suc n) self s =
                 Some (update_node self
                   (\<lambda>n. n\<lparr>obj := JoinWithTable
                      (j\<lparr>join_q := Some (drop 1 rest), client_session := Some SessionClosed,
                         worker_awaitable := Some (Done (Inl (UnsupportedType tag)))\<rparr>)\<rparr>) s)"
    by (intro worker_aborts) simp_all
qed

theorem parse_response_decodes_by_tag_witness:
  "JoinWithTable_parse_response ex_lib ''found'' =
     Inr (PDict [(''name'', PStr ''ann''), (''age'', PInt (- 42)), (''ok'', PBool True),
                 (''score'', PFloat (Float 3 (- 1)))]) \<and>
   JoinWithTable_parse_response ex_lib ''blob'' = Inl (UnsupportedType ''B'') \<and>
   JoinWithTable_worker ex_lib (do ex_lib (Suc 0)) (Suc 0) 0
       (join_state (running_join [Job (PStr ''k'') (Inr \<lparr>status = 200, text_body = Inr ''blob''\<rparr>)])
          (PList [])) =
     Some (join_state (stopped_join (Inl (UnsupportedType ''B''))) (PList []))"
proof -
  let ?items = "[(''name'', PDict [(''S'', PStr ''ann'')]), (''age'', PDict [(''N'', PStr ''-42'')]),
                 (''ok'', PDict [(''BOOL'', PBool True)]), (''score'', PDict [(''N'', PStr ''1.5'')])]"
  let ?outs = "[(''name'', PStr ''ann''), (''age'', PInt (- 42)), (''ok'', PBool True),
                (''score'', PFloat (Float 3 (- 1)))]"
  have loads: "json_loads ex_lib ''found'' = Some (PDict [(''Item'', PDict ?items)])"
    by (simp add: ex_lib_def ex_json_loads_def)
  have item: "map_of [(''Item'', PDict ?items)] ''Item'' = Some (PDict ?items)"
    by simp
  have age: "decodes_to ex_lib ''N'' (PStr ''-42'') (PInt (- 42))"
    using decodes_to.minus_digits [of "''42''" ex_lib]
    by (simp add: is_digit_def digits_value_def)
  have score: "decodes_to ex_lib ''N'' (PStr ''1.5'') (PFloat (Float 3 (- 1)))"
    by (rule decodes_to.floating)
      (simp_all add: non_int_char_pattern_search_def is_digit_def ex_lib_def ex_float_of_str_def)
  have each: "distinct (map fst ?items) \<and> list_all2 (attribute_decodes ex_lib) ?items ?outs"
    using age score by (simp add: attribute_decodes_def decodes_to.string_tag decodes_to.boolean_tag)
  have found: "JoinWithTable_parse_response ex_lib ''found'' = Inr (PDict ?outs)"
    using parse_response_decodes_by_tag [OF loads item] each by blast
  let ?blob = "[(''b'', PDict [(''B'', PStr ''AAEC'')])]"
  let ?jobs = "[Job (PStr ''k'') (Inr \<lparr>status = 200, text_body = Inr ''blob''\<rparr>)]"
  have loads': "json_loads ex_lib ''blob'' = Some (PDict [(''Item'', PDict ?blob)])"
    by (simp add: ex_lib_def ex_json_loads_def)
  have item': "map_of [(''Item'', PDict ?blob)] ''Item'' = Some (PDict ?blob)"
    by simp
  note unsupported = parse_response_decodes_by_tag [OF loads' item', THEN conjunct2, rule_format,
      where pre = "[]" and outs = "[]" and name = "''b''" and tag = "''B''" and v = "PStr ''AAEC''"
        and others = "[]" and post = "[]"]
  have shape: "?blob = [] @ (''b'', PDict ((''B'', PStr ''AAEC'') # [])) # [] \<and>
      list_all2 (attribute_decodes ex_lib) [] [] \<and> ''B'' \<noteq> ''S'' \<and> ''B'' \<noteq> ''BOOL'' \<and> ''B'' \<noteq> ''N''"
    by simp
  have blob: "JoinWithTable_parse_response ex_lib ''blob'' = Inl (UnsupportedType ''B'')"
    using unsupported [OF shape] by simp
  have node: "obj (heap (join_state (running_join ?jobs) (PList [])) 0) =
      JoinWithTable (running_join ?jobs) \<and>
    join_q (running_join ?jobs) = Some (Job (PStr ''k'') (Inr \<lparr>status = 200, text_body = Inr ''blob''\<rparr>) # []) \<and>
    worker_awaitable (running_join ?jobs) = Some Pending"
    by (simp add: join_state_def alloc_def running_join_def)
  have left: "update_node 0
      (\<lambda>n. n\<lparr>obj := JoinWithTable
         ((running_join ?jobs)\<lparr>join_q := Some (drop 1 []), client_session := Some SessionClosed,
            worker_awaitable := Some (Done (Inl (UnsupportedType ''B'')))\<rparr>)\<rparr>)
      (join_state (running_join ?jobs) (PList [])) =
    join_state (stopped_join (Inl (UnsupportedType ''B''))) (PList [])"
    by (simp add: running_join_def stopped_join_def join_state_def update_node_def alloc_def
        new_join_def fun_upd_twist)
  have aborted: "JoinWithTable_worker ex_lib (do ex_lib (Suc 0)) (Suc 0) 0
       (join_state (running_join ?jobs) (PList [])) =
     Some (join_state (stopped_join (Inl (UnsupportedType ''B''))) (PList []))"
    using unsupported [OF shape, THEN conjunct2, rule_format, OF node] left by simp
  show ?thesis
    using found blob aborted by simp
qed

text \<open>
  The text \<^verbatim>\<open>+5\<close> is a sign followed by a digit, but the pattern \<^verbatim>\<open>[^-0-9]\<close> finds
  the plus sign, so the value goes to \<^verbatim>\<open>float\<close> and decodes as the float 5.0, not as
  the integer 5.
\<close>

theorem plus_sign_counterexample:
  "json_loads ex_lib ''plus'' =
     Some (PDict [(''Item'', PDict [(''n'', PDict [(''N'', PStr ''+5'')])])]) \<and>
   float_of_str ex_lib ''+5'' = Some (Float 5 0) \<and>
   JoinWithTable_parse_response ex_lib ''plus'' = Inr (PDict [(''n'', PFloat (Float 5 0))]) \<and>
   JoinWithTable_parse_response ex_lib ''plus'' \<noteq> Inr (PDict [(''n'', PInt 5)])"
  by (simp add: JoinWithTable_parse_response_def ex_lib_def ex_json_loads_def
      non_int_char_pattern_search_def is_digit_def ex_float_of_str_def)

section \<open>The Source reports a failure at the caller's next call\<close>

lemma get_source_Source:
  "obj (heap s self) = Source src \<Longrightarrow> get_source self s = Some (Inr src, s)"
  by (simp add: get_source_def)

lemma update_source_Source:
  "obj (heap s self) = Source src \<Longrightarrow>
   update_source self f s = Some (Inr (), set_source self (f src) s)"
  by (simp add: update_source_def set_source_def update_node_def)

lemma obj_set_source [simp]: "obj (heap (set_source self src s) self) = Source src"
  by (simp add: set_source_def update_node_def)

lemma set_source_twice [simp]:
  "set_source self src' (set_source self src s) = set_source self src' s"
  by (simp add: set_source_def update_node_def)

lemma handler_runs:
  assumes "obj (heap s2 self) = Source src2"
    and "termination_future src2 = Some Pending"
  shows "bnd (update_source self (\<lambda>src. src\<lparr>source_ex := Some ex\<rparr>)) (\<lambda>u.
         bnd (update_source self
                (\<lambda>src. case source_q src of
                         [] \<Rightarrow> src
                       | pending # rest \<Rightarrow> src\<lparr>source_q := rest\<rparr>)) (\<lambda>u.
         bnd (set_result self PNone) (\<lambda>u.
         ret True))) s2 =
       Some (Inr True,
             set_source self
               (src2\<lparr>source_ex := Some ex, source_q := drop 1 (source_q src2),
                      termination_future := Some (Done (Inr PNone))\<rparr>) s2)"
proof -
  let ?a = "src2\<lparr>source_ex := Some ex\<rparr>"
  let ?b = "?a\<lparr>source_q := drop 1 (source_q src2)\<rparr>"
  have one: "update_source self (\<lambda>src. src\<lparr>source_ex := Some ex\<rparr>) s2 =
      Some (Inr (), set_source self ?a s2)"
    using assms(1) by (rule update_source_Source)
  have two: "update_source self
                (\<lambda>src. case source_q src of
                         [] \<Rightarrow> src
                       | pending # rest \<Rightarrow> src\<lparr>source_q := rest\<rparr>) (set_source self ?a s2) =
      Some (Inr (), set_source self ?b s2)"
    by (cases "source_q src2"; cases src2)
      (simp_all add: update_source_Source [OF obj_set_source])
  have three: "set_result self PNone (set_source self ?b s2) =
      Some (Inr (), set_source self (?b\<lparr>termination_future := Some (Done (Inr PNone))\<rparr>) s2)"
    using assms(2)
    by (simp add: set_result_def bnd_def get_source_Source [OF obj_set_source]
        update_source_Source [OF obj_set_source])
  show ?thesis
    using one two three by (simp add: bnd_def ret_def)
qed

text \<open>
  C3. (1) The worker's loop, when the caller's thread has left an element at the head
  of the queue and processing it raises \<open>ex\<close>: the loop returns, whatever the caller
  would do next, with \<open>ex\<close> recorded, at most one more entry taken off the queue, and
  the termination future resolved with \<^verbatim>\<open>None\<close>. (2) The thread then puts the
  recorded exception on the termination queue. (3) \<^verbatim>\<open>_emit\<close> called with a failure
  recorded raises \<^verbatim>\<open>FlowException\<close> from it and leaves the state as it is: the check
  comes before the \<^verbatim>\<open>put\<close>. (4) \<^verbatim>\<open>_emit\<close> called with no failure recorded puts the
  element on the queue once there is room and then checks again: it raises
  \<^verbatim>\<open>FlowException\<close> if a failure is recorded by then. (5) \<^verbatim>\<open>await_termination\<close>, once
  the worker's thread has reported an exception, raises \<^verbatim>\<open>FlowException\<close>.
\<close>

theorem Source_defers_failure:
  "(\<forall>w ws s0 src0 element rest ex s2 src2.
      w s = Some s0 \<and> obj (heap s0 self) = Source src0 \<and> source_q src0 = element # rest \<and>
      Flow_do_downstream L d self element (set_source self (src0\<lparr>source_q := rest\<rparr>) s0) =
        Some (Inl ex, s2) \<and>
      obj (heap s2 self) = Source src2 \<and> termination_future src2 = Some Pending \<longrightarrow>
      Source_loop L d (w # ws) self s =
        Some (Inr (),
              set_source self
                (src2\<lparr>source_ex := Some ex, source_q := drop 1 (source_q src2),
                       termination_future := Some (Done (Inr PNone))\<rparr>) s2)) \<and>
   (\<forall>ws s' src'.
      Source_run_loop L d ws self s = Some (Inr (), s') \<and>
      obj (heap s' self) = Source src' \<and> termination_q src' = [] \<longrightarrow>
      Source_loop_thread_main L d ws self s =
        Some (Inr (), set_source self (src'\<lparr>termination_q := [source_ex src']\<rparr>) s')) \<and>
   (\<forall>src ex w1 w2 element.
      obj (heap s self) = Source src \<and> source_ex src = Some ex \<longrightarrow>
      Source_emit w1 w2 self element s = Some (Inl (FlowException (Some ex)), s)) \<and>
   (\<forall>src w1 w2 element s1 src1 s3 src3.
      obj (heap s self) = Source src \<and> source_ex src = None \<and>
      w1 s = Some s1 \<and> obj (heap s1 self) = Source src1 \<and>
      length (source_q src1) < buffer_size src1 \<and>
      w2 (set_source self (src1\<lparr>source_q := source_q src1 @ [element]\<rparr>) s1) = Some s3 \<and>
      obj (heap s3 self) = Source src3 \<longrightarrow>
      Source_emit w1 w2 self element s =
        (case source_ex src3 of
           None \<Rightarrow> Some (Inr (), s3)
         | Some ex \<Rightarrow> Some (Inl (FlowException (Some ex)), s3))) \<and>
   (\<forall>w s1 src1 ex rest.
      w s = Some s1 \<and> obj (heap s1 self) = Source src1 \<and> termination_q src1 = Some ex # rest \<longrightarrow>
      raise_error_or_return_termination_result w self s =
        Some (Inl (FlowException (source_ex src1)), set_source self (src1\<lparr>termination_q := rest\<rparr>) s1))"
proof (intro conjI allI impI)
  fix w ws and s0 :: state and src0 element rest ex s2 src2
  assume h: "w s = Some s0 \<and> obj (heap s0 self) = Source src0 \<and> source_q src0 = element # rest \<and>
      Flow_do_downstream L d self element (set_source self (src0\<lparr>source_q := rest\<rparr>) s0) =
        Some (Inl ex, s2) \<and>
      obj (heap s2 self) = Source src2 \<and> termination_future src2 = Some Pending"
  let ?s1 = "set_source self (src0\<lparr>source_q := rest\<rparr>) s0"
  from h have body: "Source_run_loop_body L d self element ?s1 =
      Some (Inr True,
            set_source self
              (src2\<lparr>source_ex := Some ex, source_q := drop 1 (source_q src2),
                     termination_future := Some (Done (Inr PNone))\<rparr>) s2)"
    using handler_runs [of s2 self src2 ex]
    by (simp add: Source_run_loop_body_def bnd_def)
  from h have taken: "update_source self (\<lambda>src. src\<lparr>source_q := rest\<rparr>) s0 = Some (Inr (), ?s1)"
    by (simp add: update_source_Source)
  from h body taken show "Source_loop L d (w # ws) self s =
        Some (Inr (),
              set_source self
                (src2\<lparr>source_ex := Some ex, source_q := drop 1 (source_q src2),
                       termination_future := Some (Done (Inr PNone))\<rparr>) s2)"
    by (simp add: bnd_def interfere_def get_source_Source ret_def)
next
  fix ws s' src'
  assume "Source_run_loop L d ws self s = Some (Inr (), s') \<and>
      obj (heap s' self) = Source src' \<and> termination_q src' = []"
  then show "Source_loop_thread_main L d ws self s =
        Some (Inr (), set_source self (src'\<lparr>termination_q := [source_ex src']\<rparr>) s')"
    by (simp add: Source_loop_thread_main_def bnd_def get_source_Source update_source_Source)
next
  fix src ex w1 w2 element
  assume "obj (heap s self) = Source src \<and> source_ex src = Some ex"
  then show "Source_emit w1 w2 self element s = Some (Inl (FlowException (Some ex)), s)"
    by (simp add: Source_emit_def bnd_def get_source_Source Source_raise_on_error_def raise_def)
next
  fix src w1 w2 element s1 src1 and s3 :: state and src3
  assume h: "obj (heap s self) = Source src \<and> source_ex src = None \<and>
      w1 s = Some s1 \<and> obj (heap s1 self) = Source src1 \<and>
      length (source_q src1) < buffer_size src1 \<and>
      w2 (set_source self (src1\<lparr>source_q := source_q src1 @ [element]\<rparr>) s1) = Some s3 \<and>
      obj (heap s3 self) = Source src3"
  then have put: "source_q_put w1 self element s =
      Some (Inr (), set_source self (src1\<lparr>source_q := source_q src1 @ [element]\<rparr>) s1)"
    by (simp add: source_q_put_def bnd_def interfere_def get_source_Source update_source_Source)
  from h put show "Source_emit w1 w2 self element s =
        (case source_ex src3 of
           None \<Rightarrow> Some (Inr (), s3)
         | Some ex \<Rightarrow> Some (Inl (FlowException (Some ex)), s3))"
    by (simp add: Source_emit_def bnd_def get_source_Source Source_raise_on_error_def raise_def
        ret_def interfere_def split: option.splits)
next
  fix w and s1 :: state and src1 ex rest
  assume "w s = Some s1 \<and> obj (heap s1 self) = Source src1 \<and> termination_q src1 = Some ex # rest"
  then show "raise_error_or_return_termination_result w self s =
        Some (Inl (FlowException (source_ex src1)), set_source self (src1\<lparr>termination_q := rest\<rparr>) s1)"
    by (simp add: raise_error_or_return_termination_result_def bnd_def interfere_def
        get_source_Source update_source_Source Source_raise_on_error_def raise_def)
qed

text \<open>
  The element 3 fails in the Map node. With 3 and 4 on the queue the worker records the
  failure, takes 4 off the queue and stops; the next \<^verbatim>\<open>emit\<close> and
  \<^verbatim>\<open>await_termination\<close> raise; and an \<^verbatim>\<open>emit\<close> of 3 itself raises at its second
  check when the worker fails right after the \<^verbatim>\<open>put\<close>.
\<close>

lemma source_state_obj: "obj (heap (source_state src) 0) = Source src"
  by (simp add: source_state_def alloc_def)

lemma set_source_state: "set_source 0 src' (source_state src) = source_state src'"
  by (simp add: set_source_def update_node_def source_state_def alloc_def)

lemma boom:
  "Flow_do_downstream ex_lib (do ex_lib (Suc (Suc 0))) 0 (Element (PInt 3)) (source_state src) =
     Some (Inl (UserError ''boom''), source_state src)"
  by (simp add: Flow_do_downstream_def source_state_def alloc_def bnd_def ret_def ex_lib_def
      run_in_order_def UnaryFunctionFlow_do_def py_fail_on_3_def lift_def raise_def)

theorem Source_defers_failure_witness:
  "Source_loop ex_lib (do ex_lib (Suc (Suc 0))) [Some] 0
       (source_state (running_source [Element (PInt 3), Element (PInt 4)])) =
     Some (Inr (), source_state (failed_source [])) \<and>
   Source_loop_thread_main ex_lib (do ex_lib (Suc (Suc 0))) [Some] 0
       (source_state ((new_source 2)\<lparr>source_q := [Element (PInt 3), Element (PInt 4)]\<rparr>)) =
     Some (Inr (), source_state (failed_source [Some (UserError ''boom'')])) \<and>
   Source_emit Some Some 0 (Element (PInt 5)) (source_state (failed_source [])) =
     Some (Inl (FlowException (Some (UserError ''boom''))), source_state (failed_source [])) \<and>
   Source_emit Some (as_interference (Source_loop ex_lib (do ex_lib (Suc (Suc 0))) [Some] 0)) 0
       (Element (PInt 3)) (source_state (running_source [])) =
     Some (Inl (FlowException (Some (UserError ''boom''))), source_state (failed_source [])) \<and>
   raise_error_or_return_termination_result Some 0
       (source_state (failed_source [Some (UserError ''boom'')])) =
     Some (Inl (FlowException (Some (UserError ''boom''))), source_state (failed_source []))"
proof -
  let ?d = "do ex_lib (Suc (Suc 0))"
  let ?boom = "UserError ''boom''"
  note worker = Source_defers_failure [where L = ex_lib and d = ?d and self = 0,
      THEN conjunct1, rule_format]
  note thread = Source_defers_failure [where L = ex_lib and d = ?d and self = 0,
      THEN conjunct2, THEN conjunct1, rule_format]
  note first_check = Source_defers_failure [where self = 0,
      THEN conjunct2, THEN conjunct2, THEN conjunct1, rule_format]
  note second_check = Source_defers_failure [where self = 0,
      THEN conjunct2, THEN conjunct2, THEN conjunct2, THEN conjunct1, rule_format]
  note await = Source_defers_failure [where self = 0,
      THEN conjunct2, THEN conjunct2, THEN conjunct2, THEN conjunct2, rule_format]
  have stops: "Source_loop ex_lib ?d [Some] 0 (source_state (running_source (Element (PInt 3) # rest))) =
      Some (Inr (), source_state (failed_source []))" if "drop 1 rest = []" for rest
  proof -
    let ?src0 = "running_source (Element (PInt 3) # rest)"
    let ?src2 = "?src0\<lparr>source_q := rest\<rparr>"
    have "Source_loop ex_lib ?d [Some] 0 (source_state ?src0) =
        Some (Inr (),
              set_source 0
                (?src2\<lparr>source_ex := Some ?boom, source_q := drop 1 (source_q ?src2),
                       termination_future := Some (Done (Inr PNone))\<rparr>) (source_state ?src2))"
      by (rule worker [where ?s0.0 = "source_state ?src0" and ?src0.0 = ?src0
            and element = "Element (PInt 3)" and rest = rest])
        (simp add: source_state_obj set_source_state boom running_source_def)
    then show ?thesis
      using that
      by (simp add: set_source_state running_source_def failed_source_def new_source_def)
  qed
  have started: "Source_run_loop ex_lib ?d [Some] 0
        (source_state ((new_source 2)\<lparr>source_q := [Element (PInt 3), Element (PInt 4)]\<rparr>)) =
      Some (Inr (), source_state (failed_source []))"
    using stops [of "[Element (PInt 4)]"]
    by (simp add: Source_run_loop_def bnd_def update_source_Source [OF source_state_obj]
        set_source_state running_source_def new_source_def)
  have put_on_q: "Source_loop_thread_main ex_lib ?d [Some] 0
        (source_state ((new_source 2)\<lparr>source_q := [Element (PInt 3), Element (PInt 4)]\<rparr>)) =
      Some (Inr (), source_state (failed_source [Some ?boom]))"
    using thread [OF conjI [OF started conjI [OF source_state_obj]]]
    by (simp add: set_source_state failed_source_def new_source_def)
  have refused: "Source_emit Some Some 0 (Element (PInt 5)) (source_state (failed_source [])) =
      Some (Inl (FlowException (Some ?boom)), source_state (failed_source []))"
    by (rule first_check [where src = "failed_source []"])
      (simp add: source_state_obj failed_source_def)
  have late: "Source_emit Some (as_interference (Source_loop ex_lib ?d [Some] 0)) 0
        (Element (PInt 3)) (source_state (running_source [])) =
      Some (Inl (FlowException (Some ?boom)), source_state (failed_source []))"
    using second_check [where s = "source_state (running_source [])" and src = "running_source []"
        and ?w1.0 = Some and ?s1.0 = "source_state (running_source [])"
        and ?src1.0 = "running_source []" and element = "Element (PInt 3)"
        and ?w2.0 = "as_interference (Source_loop ex_lib ?d [Some] 0)"
        and ?s3.0 = "source_state (failed_source [])" and ?src3.0 = "failed_source []"]
      stops [of "[]"]
    by (simp add: source_state_obj set_source_state as_interference_def running_source_def
        new_source_def failed_source_def)
  have awaited: "raise_error_or_return_termination_result Some 0
        (source_state (failed_source [Some ?boom])) =
      Some (Inl (FlowException (Some ?boom)), source_state (failed_source []))"
    using await [where s = "source_state (failed_source [Some ?boom])" and w = Some
        and ?s1.0 = "source_state (failed_source [Some ?boom])"
        and ?src1.0 = "failed_source [Some ?boom]" and ex = ?boom and rest = "[]"]
    by (simp add: source_state_obj set_source_state failed_source_def new_source_def)
  show ?thesis
    using stops [of "[Element (PInt 4)]"] put_on_q refused late awaited by simp
qed

end
